theory Spec2Isabelle
  imports Complex_Main "HOL-Library.Multiset" "HOL-Library.Char_ord" "HOL-Library.List_Lexorder"
begin

section \<open>Data frames\<close>

text \<open>
  The forecasting engine of \<^verbatim>\<open>covid_prediction_model.py\<close> works on pandas data
  frames. A frame is modelled row by row: a row maps a column name to a cell, and the
  frame records which column names exist and which of them have the dtype
  \<^verbatim>\<open>datetime64\<close>. A cell is a number, a string, a timestamp (nanoseconds since
  1970-01-01) or a missing value (\<^verbatim>\<open>NaN\<close>, \<^verbatim>\<open>None\<close> and \<^verbatim>\<open>NaT\<close> alike).
  Numbers are exact rationals: the rounding of float64 is not modelled.
\<close>

datatype cell = Num rat | Str string | Dt int | NaN

type_synonym row = "string \<Rightarrow> cell"

record frame =
  columns :: "string list"
  datetime64 :: "string list"
  rows :: "row list"

text \<open>
  The string parsers of \<^verbatim>\<open>pd.to_datetime\<close> and \<^verbatim>\<open>pd.to_numeric\<close> belong to
  pandas; they are parameters of the model. \<open>None\<close> is a string the parser rejects.
\<close>

record parsers =
  str_to_datetime :: "string \<Rightarrow> int option"
  str_to_numeric :: "string \<Rightarrow> rat option"

text \<open>
  The exceptions that the code and its libraries raise. \<^verbatim>\<open>NotFittedError\<close> is scikit-learn's
  error for an estimator that is used before it is fitted. The source defines no
  exception class of its own.
\<close>

datatype exn =
    KeyError string
  | TypeError string
  | ValueError string
  | NotFittedError
  | Exception string

fun str_exn :: "exn \<Rightarrow> string" where
  "str_exn (KeyError k) = [CHR 0x27] @ k @ [CHR 0x27]"
| "str_exn (TypeError m) = m"
| "str_exn (ValueError m) = m"
| "str_exn NotFittedError = ''This instance is not fitted yet.''"
| "str_exn (Exception m) = m"

subsection \<open>Column operations\<close>

definition col :: "frame \<Rightarrow> string \<Rightarrow> cell list" where
  "col f c = map (\<lambda>r. r c) (rows f)"

text \<open>\<^verbatim>\<open>df[c] = vals\<close>: the column is overwritten, or appended when it is new.\<close>

definition setitem :: "string \<Rightarrow> cell list \<Rightarrow> frame \<Rightarrow> frame" where
  "setitem c vals f =
     \<lparr>columns = (if c \<in> set (columns f) then columns f else columns f @ [c]),
      datetime64 = removeAll c (datetime64 f),
      rows = map2 (\<lambda>r v. r(c := v)) (rows f) vals\<rparr>"

text \<open>The same assignment for a column that \<^verbatim>\<open>pd.to_datetime\<close> produced.\<close>

definition setitem_datetime :: "string \<Rightarrow> cell list \<Rightarrow> frame \<Rightarrow> frame" where
  "setitem_datetime c vals f = (setitem c vals f)\<lparr>datetime64 := c # removeAll c (datetime64 f)\<rparr>"

text \<open>\<^verbatim>\<open>df[c] = v\<close> for a scalar \<open>v\<close>.\<close>

definition setitem_scalar :: "string \<Rightarrow> cell \<Rightarrow> frame \<Rightarrow> frame" where
  "setitem_scalar c v f = setitem c (replicate (length (rows f)) v) f"

definition is_datetime64_any_dtype :: "frame \<Rightarrow> string \<Rightarrow> bool" where
  "is_datetime64_any_dtype f c = (c \<in> set (datetime64 f))"

text \<open>
  \<^verbatim>\<open>pd.to_datetime(..., errors='coerce')\<close> on one cell: a timestamp stays, a number is
  read as nanoseconds since the epoch, a string goes through the parser, and whatever
  cannot be read becomes missing.
\<close>

fun to_datetime :: "parsers \<Rightarrow> cell \<Rightarrow> cell" where
  "to_datetime P (Dt t) = Dt t"
| "to_datetime P (Num q) = Dt \<lfloor>q\<rfloor>"
| "to_datetime P (Str s) = (case str_to_datetime P s of Some t \<Rightarrow> Dt t | None \<Rightarrow> NaN)"
| "to_datetime P NaN = NaN"

text \<open>\<^verbatim>\<open>pd.to_numeric(..., errors='coerce')\<close> on one cell.\<close>

fun to_numeric :: "parsers \<Rightarrow> cell \<Rightarrow> cell" where
  "to_numeric P (Num q) = Num q"
| "to_numeric P (Str s) = (case str_to_numeric P s of Some q \<Rightarrow> Num q | None \<Rightarrow> NaN)"
| "to_numeric P (Dt t) = Num (of_int t)"
| "to_numeric P NaN = NaN"

fun fillna :: "rat \<Rightarrow> cell \<Rightarrow> cell" where
  "fillna v NaN = Num v"
| "fillna v c = c"

text \<open>\<^verbatim>\<open>df.dropna(subset=[c])\<close>: the rows whose cell in column \<open>c\<close> is missing go.\<close>

definition dropna :: "string \<Rightarrow> frame \<Rightarrow> frame" where
  "dropna c f = f\<lparr>rows := filter (\<lambda>r. r c \<noteq> NaN) (rows f)\<rparr>"

fun timestamp :: "cell \<Rightarrow> int" where
  "timestamp (Dt t) = t"
| "timestamp _ = 0"

text \<open>
  \<^verbatim>\<open>df.sort_values(c)\<close> on a timestamp column without missing values, ascending. The
  order pandas gives to rows with equal keys is its sorting algorithm's; here they keep
  their input order.
\<close>

definition sort_values :: "string \<Rightarrow> frame \<Rightarrow> frame" where
  "sort_values c f = f\<lparr>rows := sort_key (\<lambda>r. timestamp (r c)) (rows f)\<rparr>"

subsection \<open>Calendar fields of a timestamp\<close>

definition days_since_epoch :: "int \<Rightarrow> int" where
  "days_since_epoch t = t div 86400000000000"

text \<open>Proleptic Gregorian calendar date of a day number: (year, month, day).\<close>

definition civil_from_days :: "int \<Rightarrow> int \<times> int \<times> int" where
  "civil_from_days d =
     (let z = d + 719468;
          era = z div 146097;
          doe = z - era * 146097;
          yoe = (doe - doe div 1460 + doe div 36524 - doe div 146096) div 365;
          doy = doe - (365 * yoe + yoe div 4 - yoe div 100);
          mp = (5 * doy + 2) div 153;
          dd = doy - (153 * mp + 2) div 5 + 1;
          mm = (if mp < 10 then mp + 3 else mp - 9);
          yy = yoe + era * 400 + (if mm \<le> 2 then 1 else 0)
      in (yy, mm, dd))"

fun dt_day :: "cell \<Rightarrow> cell" where
  "dt_day (Dt t) = Num (of_int (snd (snd (civil_from_days (days_since_epoch t)))))"
| "dt_day _ = NaN"

fun dt_month :: "cell \<Rightarrow> cell" where
  "dt_month (Dt t) = Num (of_int (fst (snd (civil_from_days (days_since_epoch t)))))"
| "dt_month _ = NaN"

fun dt_year :: "cell \<Rightarrow> cell" where
  "dt_year (Dt t) = Num (of_int (fst (civil_from_days (days_since_epoch t))))"
| "dt_year _ = NaN"

text \<open>Monday is 0; 1970-01-01 was a Thursday.\<close>

fun dt_dayofweek :: "cell \<Rightarrow> cell" where
  "dt_dayofweek (Dt t) = Num (of_int ((days_since_epoch t + 3) mod 7))"
| "dt_dayofweek _ = NaN"

subsection \<open>Rolling mean within groups\<close>

fun num_of :: "cell \<Rightarrow> rat" where
  "num_of (Num q) = q"
| "num_of _ = 0"

definition mean :: "rat list \<Rightarrow> rat" where
  "mean xs = sum_list xs / of_nat (length xs)"

text \<open>
  \<^verbatim>\<open>x.rolling(window=7, min_periods=1).mean()\<close>: position \<open>i\<close> holds the mean of the
  observations at positions \<open>i - 6, ..., i\<close> that exist.
\<close>

definition window7 :: "rat list \<Rightarrow> nat \<Rightarrow> rat list" where
  "window7 xs i = drop (i + 1 - 7) (take (i + 1) xs)"

definition rolling_mean7 :: "rat list \<Rightarrow> rat list" where
  "rolling_mean7 xs = map (\<lambda>i. mean (window7 xs i)) [0..<length xs]"

text \<open>
  \<^verbatim>\<open>df.groupby(key)[c].transform(lambda x: x.rolling(window=7, min_periods=1).mean())\<close>:
  the rows with the same key form a group, in frame order; each row receives the rolling
  mean at its own position within its group. A row whose key is missing belongs to no
  group and receives a missing value.
\<close>

definition groupby_rolling_mean7 :: "string \<Rightarrow> string \<Rightarrow> frame \<Rightarrow> cell list" where
  "groupby_rolling_mean7 key c f =
     map (\<lambda>i. let k = (rows f ! i) key in
               if k = NaN then NaN
               else Num (rolling_mean7 (map (\<lambda>r. num_of (r c)) (filter (\<lambda>r. r key = k) (rows f)))
                          ! length (filter (\<lambda>r. r key = k) (take i (rows f)))))
         [0..<length (rows f)]"

section \<open>preprocess\_data\<close>

subsection \<open>The statements of the function, on one frame\<close>

text \<open>
  The first statement of the \<^verbatim>\<open>try\<close> block, for a frame that has a \<^verbatim>\<open>Date\<close>
  column: unless that column already holds timestamps, it is overwritten with the parsed
  \<^verbatim>\<open>ObservationDate\<close> column when there is one, and with its own parsed cells otherwise.
\<close>

definition assign_Date :: "parsers \<Rightarrow> frame \<Rightarrow> frame" where
  "assign_Date P f =
     (if \<not> is_datetime64_any_dtype f ''Date'' then
        (if ''ObservationDate'' \<in> set (columns f)
         then setitem_datetime ''Date'' (map (to_datetime P) (col f ''ObservationDate'')) f
         else setitem_datetime ''Date'' (map (to_datetime P) (col f ''Date'')) f)
      else f)"

definition assign_calendar :: "frame \<Rightarrow> frame" where
  "assign_calendar f =
     (let f1 = setitem ''Day'' (map dt_day (col f ''Date'')) f;
          f2 = setitem ''Month'' (map dt_month (col f1 ''Date'')) f1;
          f3 = setitem ''Year'' (map dt_year (col f2 ''Date'')) f2
      in setitem ''DayOfWeek'' (map dt_dayofweek (col f3 ''Date'')) f3)"

text \<open>
  One round of the loop over \<^verbatim>\<open>['Confirmed', 'Deaths']\<close>: the lines it prints and the
  frame it leaves.
\<close>

definition coerce_numeric :: "parsers \<Rightarrow> string \<Rightarrow> frame \<Rightarrow> string list \<times> frame" where
  "coerce_numeric P c f =
     (if c \<in> set (columns f)
      then ([], setitem c (map (fillna 0 \<circ> to_numeric P) (col f c)) f)
      else ([''Warning: Column '' @ c @ '' not found for rolling average.''],
            setitem_scalar c (Num 0) f))"

text \<open>The rolling-average assignment, written twice in the source.\<close>

definition assign_MA7 :: "string \<Rightarrow> string \<Rightarrow> frame \<Rightarrow> frame" where
  "assign_MA7 src dst f =
     (if ''State/UnionTerritory'' \<in> set (columns f) \<and> src \<in> set (columns f)
      then setitem dst (groupby_rolling_mean7 ''State/UnionTerritory'' src f) f
      else setitem_scalar dst (Num 0) f)"

subsection \<open>The function, on a store of frames\<close>

text \<open>
  \<^verbatim>\<open>preprocess_data\<close> copies its argument and then assigns columns of the copy in
  place, so frames live in a store: a list of frames, addressed by position. A new
  object is appended. What the function prints is collected in a list of lines.
\<close>

type_synonym heap = "frame list"

definition alloc :: "frame \<Rightarrow> heap \<Rightarrow> nat \<times> heap" where
  "alloc f h = (length h, h @ [f])"

definition inplace :: "nat \<Rightarrow> (frame \<Rightarrow> frame) \<Rightarrow> heap \<Rightarrow> heap" where
  "inplace a g h = h[a := g (h ! a)]"

definition inplace_printing ::
  "nat \<Rightarrow> (frame \<Rightarrow> string list \<times> frame) \<Rightarrow> string list \<times> heap \<Rightarrow> string list \<times> heap" where
  "inplace_printing a g = (\<lambda>(out, h). (out @ fst (g (h ! a)), h[a := snd (g (h ! a))]))"

text \<open>
  The \<^verbatim>\<open>try\<close> block. It yields the exception raised or the address of the returned
  frame, the lines printed, and the store. \<^verbatim>\<open>df['Date']\<close> raises \<^verbatim>\<open>KeyError\<close> when
  there is no such column; \<^verbatim>\<open>sort_values\<close> returns a new frame, to which the name
  \<^verbatim>\<open>df\<close> is bound from then on.
\<close>

definition try_block :: "parsers \<Rightarrow> nat \<Rightarrow> heap \<Rightarrow> (exn + nat) \<times> string list \<times> heap" where
  "try_block P df h =
     (if ''Date'' \<notin> set (columns (h ! df)) then (Inl (KeyError ''Date''), [], h)
      else
        (let h1 = inplace df (assign_Date P) h;
             h2 = inplace df (dropna ''Date'') h1;
             (df', h3) = alloc (sort_values ''Date'' (h2 ! df)) h2;
             h4 = inplace df' assign_calendar h3;
             (out, h5) = fold (\<lambda>c. inplace_printing df' (coerce_numeric P c))
                              [''Confirmed'', ''Deaths''] ([], h4);
             h6 = inplace df' (assign_MA7 ''Confirmed'' ''Confirmed_MA7'') h5;
             h7 = inplace df' (assign_MA7 ''Deaths'' ''Death_MA7'') h6
         in (Inr df', out, h7)))"

text \<open>
  \<^verbatim>\<open>preprocess_data(df_input)\<close>. The argument is \<open>None\<close> or the address of a frame.
  The outcome is an exception that reaches the caller (\<open>Inl\<close>) or the value returned
  (\<open>Inr\<close>: \<open>None\<close> or the address of the result), with the lines printed and the store.
\<close>

definition preprocess_data ::
  "parsers \<Rightarrow> nat option \<Rightarrow> heap \<Rightarrow> (exn + nat option) \<times> string list \<times> heap" where
  "preprocess_data P df_input h =
     (case df_input of
        None \<Rightarrow> (Inr None, [''Input DataFrame is None in preprocess_data''], h)
      | Some a \<Rightarrow>
         (let (df, h1) = alloc (h ! a) h in
          case try_block P df h1 of
            (Inr r, out, h2) \<Rightarrow> (Inr (Some r), out, h2)
          | (Inl e, out, h2) \<Rightarrow>
              (Inr None, out @ [''Error in preprocess_data: '' @ str_exn e], h2)))"

text \<open>
  What the function computes, as a function of the input frame: the frame it returns
  and the lines it prints when the \<^verbatim>\<open>Date\<close> column exists.
\<close>

definition sorted_by_date :: "parsers \<Rightarrow> frame \<Rightarrow> frame" where
  "sorted_by_date P f = sort_values ''Date'' (dropna ''Date'' (assign_Date P f))"

definition coerced :: "parsers \<Rightarrow> frame \<Rightarrow> frame" where
  "coerced P f =
     snd (coerce_numeric P ''Deaths'' (snd (coerce_numeric P ''Confirmed''
       (assign_calendar (sorted_by_date P f)))))"

definition warnings :: "parsers \<Rightarrow> frame \<Rightarrow> string list" where
  "warnings P f =
     fst (coerce_numeric P ''Confirmed'' (assign_calendar (sorted_by_date P f))) @
     fst (coerce_numeric P ''Deaths'' (snd (coerce_numeric P ''Confirmed''
       (assign_calendar (sorted_by_date P f)))))"

definition preprocessed :: "parsers \<Rightarrow> frame \<Rightarrow> frame" where
  "preprocessed P f =
     assign_MA7 ''Deaths'' ''Death_MA7'' (assign_MA7 ''Confirmed'' ''Confirmed_MA7'' (coerced P f))"

section \<open>The models\<close>

subsection \<open>Calls that may raise and that change objects\<close>

text \<open>
  A call takes a state and gives the value it returns, or the exception it raises, and
  the state it leaves. When a statement raises, the statements after it do not run and
  the state stays as the statements before left it.
\<close>

type_synonym ('a, 's) call = "'s \<Rightarrow> (exn + 'a) \<times> 's"

definition ret :: "'a \<Rightarrow> ('a, 's) call" where
  "ret x = (\<lambda>s. (Inr x, s))"

definition raise :: "exn \<Rightarrow> ('a, 's) call" where
  "raise e = (\<lambda>s. (Inl e, s))"

definition seq :: "('a, 's) call \<Rightarrow> ('a \<Rightarrow> ('b, 's) call) \<Rightarrow> ('b, 's) call" where
  "seq m k = (\<lambda>s. case m s of (Inl e, s') \<Rightarrow> (Inl e, s') | (Inr x, s') \<Rightarrow> k x s')"

definition pure_call :: "exn + 'a \<Rightarrow> ('a, 's) call" where
  "pure_call r = (\<lambda>s. (r, s))"

subsection \<open>scikit-learn and Prophet\<close>

text \<open>
  The estimators are not part of the repository. What they compute is a parameter of
  the model: a record of functions, over types \<open>'sc\<close>, \<open>'rf\<close> and \<open>'pm\<close> of
  fitted scalers, forests and decomposition models. A library function returns its
  result or the message of the error it raises. A feature matrix is a list of rows of
  cells.

  The functions that draw random numbers take, besides their arguments, a value of a
  type \<open>'g\<close>: the state of the process-wide random number generator, and whatever else
  the library may draw on, at the time the method of the engine is called. The split
  and the forest also take their \<^verbatim>\<open>random_state\<close> argument, \<open>None\<close> when it is left out.
\<close>

record prophet_params =
  yearly_seasonality :: bool
  weekly_seasonality :: bool
  daily_seasonality :: bool
  changepoint_prior_scale :: rat

record ('sc, 'rf, 'pm, 'g) library =
  StandardScaler_fit :: "cell list list \<Rightarrow> string + 'sc"
  StandardScaler_transform :: "'sc \<Rightarrow> cell list list \<Rightarrow> string + cell list list"
  train_test_split ::
    "rat \<Rightarrow> nat option \<Rightarrow> 'g \<Rightarrow> cell list list \<Rightarrow> cell list \<Rightarrow>
       string + (cell list list \<times> cell list list \<times> cell list \<times> cell list)"
  RandomForestRegressor_fit ::
    "nat \<Rightarrow> nat option \<Rightarrow> 'g \<Rightarrow> cell list list \<Rightarrow> cell list \<Rightarrow> string + 'rf"
  RandomForestRegressor_predict :: "'rf \<Rightarrow> cell list list \<Rightarrow> string + rat list"
  mean_squared_error :: "cell list \<Rightarrow> rat list \<Rightarrow> string + rat"
  r2_score :: "cell list \<Rightarrow> rat list \<Rightarrow> string + rat"
  Prophet_fit :: "prophet_params \<Rightarrow> 'g \<Rightarrow> frame option \<Rightarrow> string + 'pm"
  Prophet_make_future_dataframe :: "'pm \<Rightarrow> nat \<Rightarrow> frame"
  Prophet_predict :: "'pm \<Rightarrow> 'g \<Rightarrow> frame \<Rightarrow> string + frame"

definition from_library :: "string + 'a \<Rightarrow> ('a, 's) call" where
  "from_library r = (case r of Inl m \<Rightarrow> raise (ValueError m) | Inr x \<Rightarrow> ret x)"

text \<open>
  The estimator objects live in a store, one list for each class; an object is
  \<open>None\<close> until it is fitted. Constructing an object appends it to its list.
\<close>

record ('sc, 'rf, 'pm) objects =
  scalers :: "'sc option list"
  forests :: "'rf option list"
  prophets :: "'pm option list"

definition new_StandardScaler :: "(nat, ('sc, 'rf, 'pm) objects) call" where
  "new_StandardScaler = (\<lambda>s. (Inr (length (scalers s)), s\<lparr>scalers := scalers s @ [None]\<rparr>))"

definition new_RandomForestRegressor :: "(nat, ('sc, 'rf, 'pm) objects) call" where
  "new_RandomForestRegressor = (\<lambda>s. (Inr (length (forests s)), s\<lparr>forests := forests s @ [None]\<rparr>))"

definition new_Prophet :: "(nat, ('sc, 'rf, 'pm) objects) call" where
  "new_Prophet = (\<lambda>s. (Inr (length (prophets s)), s\<lparr>prophets := prophets s @ [None]\<rparr>))"

text \<open>\<^verbatim>\<open>scaler.fit_transform(X)\<close>: the scaler is fitted on \<open>X\<close>, then \<open>X\<close> is scaled.\<close>

definition scaler_fit_transform ::
  "('sc, 'rf, 'pm, 'g) library \<Rightarrow> nat \<Rightarrow> cell list list \<Rightarrow> (cell list list, ('sc, 'rf, 'pm) objects) call" where
  "scaler_fit_transform L a X =
     seq (from_library (StandardScaler_fit L X)) (\<lambda>sc.
     seq (\<lambda>s. (Inr (), s\<lparr>scalers := (scalers s)[a := Some sc]\<rparr>)) (\<lambda>_.
     from_library (StandardScaler_transform L sc X)))"

text \<open>\<^verbatim>\<open>scaler.transform(X)\<close>: scikit-learn checks first that the scaler is fitted.\<close>

definition scaler_transform ::
  "('sc, 'rf, 'pm, 'g) library \<Rightarrow> nat \<Rightarrow> cell list list \<Rightarrow> (cell list list, ('sc, 'rf, 'pm) objects) call" where
  "scaler_transform L a X = (\<lambda>s.
     case scalers s ! a of
       None \<Rightarrow> raise NotFittedError s
     | Some sc \<Rightarrow> from_library (StandardScaler_transform L sc X) s)"

text \<open>\<^verbatim>\<open>rf_model.fit(X, y)\<close> with the constructor's \<^verbatim>\<open>n_estimators\<close> and \<^verbatim>\<open>random_state\<close>.\<close>

definition forest_fit ::
  "('sc, 'rf, 'pm, 'g) library \<Rightarrow> nat \<Rightarrow> nat \<Rightarrow> nat option \<Rightarrow> 'g \<Rightarrow> cell list list \<Rightarrow> cell list \<Rightarrow>
     (unit, ('sc, 'rf, 'pm) objects) call" where
  "forest_fit L a n_estimators random_state g X y =
     seq (from_library (RandomForestRegressor_fit L n_estimators random_state g X y)) (\<lambda>rf.
     (\<lambda>s. (Inr (), s\<lparr>forests := (forests s)[a := Some rf]\<rparr>)))"

text \<open>\<^verbatim>\<open>rf_model.predict(X)\<close>: the same check comes first.\<close>

definition forest_predict ::
  "('sc, 'rf, 'pm, 'g) library \<Rightarrow> nat \<Rightarrow> cell list list \<Rightarrow> (rat list, ('sc, 'rf, 'pm) objects) call" where
  "forest_predict L a X = (\<lambda>s.
     case forests s ! a of
       None \<Rightarrow> raise NotFittedError s
     | Some rf \<Rightarrow> from_library (RandomForestRegressor_predict L rf X) s)"

text \<open>
  \<^verbatim>\<open>m.fit(df)\<close> of a Prophet object: a fitted object refuses a second fit; otherwise the
  object keeps what was fitted. \<^verbatim>\<open>make_future_dataframe\<close> and \<^verbatim>\<open>predict\<close> refuse an
  object that is not fitted.
\<close>

definition prophet_fit ::
  "('sc, 'rf, 'pm, 'g) library \<Rightarrow> prophet_params \<Rightarrow> 'g \<Rightarrow> nat \<Rightarrow> frame option \<Rightarrow>
     (unit, ('sc, 'rf, 'pm) objects) call" where
  "prophet_fit L params g a df = (\<lambda>s.
     case prophets s ! a of
       Some m \<Rightarrow>
         raise (Exception ''Prophet object can only be fit once. Instantiate a new object.'') s
     | None \<Rightarrow>
        seq (from_library (Prophet_fit L params g df)) (\<lambda>m.
        (\<lambda>s. (Inr (), s\<lparr>prophets := (prophets s)[a := Some m]\<rparr>))) s)"

definition prophet_make_future_dataframe ::
  "('sc, 'rf, 'pm, 'g) library \<Rightarrow> nat \<Rightarrow> nat \<Rightarrow> (frame, ('sc, 'rf, 'pm) objects) call" where
  "prophet_make_future_dataframe L a periods = (\<lambda>s.
     case prophets s ! a of
       None \<Rightarrow> raise (Exception ''Model has not been fit.'') s
     | Some m \<Rightarrow> ret (Prophet_make_future_dataframe L m periods) s)"

definition prophet_predict ::
  "('sc, 'rf, 'pm, 'g) library \<Rightarrow> 'g \<Rightarrow> nat \<Rightarrow> frame \<Rightarrow> (frame, ('sc, 'rf, 'pm) objects) call" where
  "prophet_predict L g a future = (\<lambda>s.
     case prophets s ! a of
       None \<Rightarrow> raise (Exception ''Model has not been fit.'') s
     | Some m \<Rightarrow> from_library (Prophet_predict L m g future) s)"

subsection \<open>Frames as values\<close>

text \<open>
  The methods below create frames and never assign into one, and \<^verbatim>\<open>preprocess_data\<close>
  leaves its argument as it was; so here a frame is a value, and \<^verbatim>\<open>preprocess_data\<close> is
  run on a store that holds its argument only. Printed lines are dropped.
\<close>

definition preprocess_frame :: "parsers \<Rightarrow> frame option \<Rightarrow> exn + frame option" where
  "preprocess_frame P df =
     (case preprocess_data P (map_option (\<lambda>_. 0) df) (case df of None \<Rightarrow> [] | Some f \<Rightarrow> [f]) of
        (Inl e, out, h) \<Rightarrow> Inl e
      | (Inr r, out, h) \<Rightarrow> Inr (map_option (\<lambda>a. h ! a) r))"

text \<open>The message of the \<^verbatim>\<open>TypeError\<close> that indexing \<open>None\<close> raises.\<close>

definition not_subscriptable :: string where
  "not_subscriptable = CHR 0x27 # ''NoneType'' @ CHR 0x27 # '' object is not subscriptable''"

text \<open>\<^verbatim>\<open>df[cs]\<close> for a list of column names, as a matrix, and \<^verbatim>\<open>df[c]\<close>.\<close>

definition getitem_list :: "frame option \<Rightarrow> string list \<Rightarrow> exn + cell list list" where
  "getitem_list df cs =
     (case df of
        None \<Rightarrow> Inl (TypeError not_subscriptable)
      | Some f \<Rightarrow>
          (case filter (\<lambda>c. c \<notin> set (columns f)) cs of
             [] \<Rightarrow> Inr (map (\<lambda>r. map r cs) (rows f))
           | c # _ \<Rightarrow> Inl (KeyError c)))"

definition getitem :: "frame option \<Rightarrow> string \<Rightarrow> exn + cell list" where
  "getitem df c =
     (case df of
        None \<Rightarrow> Inl (TypeError not_subscriptable)
      | Some f \<Rightarrow> if c \<in> set (columns f) then Inr (col f c) else Inl (KeyError c))"

text \<open>\<^verbatim>\<open>df[cs]\<close> as a frame: the forecast columns that are returned.\<close>

definition select_columns :: "frame \<Rightarrow> string list \<Rightarrow> exn + frame" where
  "select_columns f cs =
     (case filter (\<lambda>c. c \<notin> set (columns f)) cs of
        [] \<Rightarrow> Inr \<lparr>columns = cs, datetime64 = filter (\<lambda>c. c \<in> set cs) (datetime64 f),
                  rows = map (\<lambda>r c. if c \<in> set cs then r c else NaN) (rows f)\<rparr>
      | c # _ \<Rightarrow> Inl (KeyError c))"

text \<open>\<^verbatim>\<open>df[df['State/UnionTerritory'] == state]\<close>.\<close>

definition filter_state :: "frame option \<Rightarrow> string \<Rightarrow> exn + frame" where
  "filter_state df state =
     (case df of
        None \<Rightarrow> Inl (TypeError not_subscriptable)
      | Some f \<Rightarrow>
          if ''State/UnionTerritory'' \<in> set (columns f)
          then Inr (f\<lparr>rows := filter (\<lambda>r. r ''State/UnionTerritory'' = Str state) (rows f)\<rparr>)
          else Inl (KeyError ''State/UnionTerritory''))"

text \<open>
  The sum of a group: missing values are skipped. A cell that is not a number makes the
  sum raise (pandas concatenates a column of strings instead; such a series is then
  refused by the fit).
\<close>

fun sum_cells :: "cell list \<Rightarrow> exn + rat" where
  "sum_cells [] = Inr 0"
| "sum_cells (Num q # cs) = (case sum_cells cs of Inl e \<Rightarrow> Inl e | Inr t \<Rightarrow> Inr (q + t))"
| "sum_cells (NaN # cs) = sum_cells cs"
| "sum_cells (c # cs) = Inl (TypeError ''unsupported operand type(s) for +'')"

fun is_Dt :: "cell \<Rightarrow> bool" where
  "is_Dt (Dt t) = True"
| "is_Dt _ = False"

fun is_Num :: "cell \<Rightarrow> bool" where
  "is_Num (Num q) = True"
| "is_Num _ = False"

fun is_Str :: "cell \<Rightarrow> bool" where
  "is_Str (Str s) = True"
| "is_Str _ = False"

fun str_of :: "cell \<Rightarrow> string" where
  "str_of (Str s) = s"
| "str_of _ = []"

text \<open>
  The group keys in ascending order: timestamps by time, numbers by value, strings
  lexicographically. The order pandas gives to keys of mixed kinds is not modelled.
\<close>

definition sort_keys :: "cell list \<Rightarrow> cell list" where
  "sort_keys ks =
     (if list_all is_Dt ks then sort_key timestamp ks
      else if list_all is_Num ks then sort_key num_of ks
      else if list_all is_Str ks then sort_key str_of ks
      else ks)"

text \<open>
  \<^verbatim>\<open>df.groupby('Date').agg({'Confirmed': 'sum', 'Deaths': 'sum'}).reset_index()\<close>
  followed by the renaming of \<^verbatim>\<open>Date\<close> to \<^verbatim>\<open>ds\<close> and of \<^verbatim>\<open>Confirmed\<close> to \<^verbatim>\<open>y\<close>:
  one row for each date that occurs, in ascending order.
\<close>

definition aggregate_row :: "frame \<Rightarrow> cell \<Rightarrow> exn + row" where
  "aggregate_row f k =
     (case sum_cells (map (\<lambda>r. r ''Confirmed'') (filter (\<lambda>r. r ''Date'' = k) (rows f))) of
        Inl e \<Rightarrow> Inl e
      | Inr y \<Rightarrow>
         (case sum_cells (map (\<lambda>r. r ''Deaths'') (filter (\<lambda>r. r ''Date'' = k) (rows f))) of
            Inl e \<Rightarrow> Inl e
          | Inr d \<Rightarrow> Inr ((\<lambda>_. NaN)(''ds'' := k, ''y'' := Num y, ''Deaths'' := Num d))))"

fun collect :: "(exn + 'a) list \<Rightarrow> exn + 'a list" where
  "collect [] = Inr []"
| "collect (Inl e # rs) = Inl e"
| "collect (Inr x # rs) = (case collect rs of Inl e \<Rightarrow> Inl e | Inr xs \<Rightarrow> Inr (x # xs))"

definition aggregate_by_date :: "frame \<Rightarrow> exn + frame" where
  "aggregate_by_date f =
     (case filter (\<lambda>c. c \<notin> set (columns f)) [''Date'', ''Confirmed'', ''Deaths''] of
        c # _ \<Rightarrow> Inl (KeyError c)
      | [] \<Rightarrow>
         (case collect (map (aggregate_row f)
                 (sort_keys (remdups (filter (\<lambda>k. k \<noteq> NaN) (col f ''Date''))))) of
            Inl e \<Rightarrow> Inl e
          | Inr rs \<Rightarrow>
              Inr \<lparr>columns = [''ds'', ''y'', ''Deaths''],
                   datetime64 = (if is_datetime64_any_dtype f ''Date'' then [''ds''] else []),
                   rows = rs\<rparr>))"

section \<open>COVIDPredictionModel\<close>

text \<open>
  An engine holds the addresses of its three estimator objects. No method assigns an
  attribute of \<^verbatim>\<open>self\<close> after the constructor, so the engine itself is a value.
\<close>

record engine =
  rf_model :: nat
  prophet_model :: nat
  scaler :: nat

definition default_params :: prophet_params where
  "default_params =
     \<lparr>yearly_seasonality = True, weekly_seasonality = True, daily_seasonality = True,
      changepoint_prior_scale = 5 / 100\<rparr>"

definition features :: "string list" where
  "features = [''Day'', ''Month'', ''Year'', ''DayOfWeek'', ''Confirmed_MA7'', ''Death_MA7'']"

definition forecast_columns :: "string list" where
  "forecast_columns = [''ds'', ''yhat'', ''yhat_lower'', ''yhat_upper'']"

text \<open>\<^verbatim>\<open>__init__\<close>: three new objects, none of them fitted.\<close>

definition init :: "(engine, ('sc, 'rf, 'pm) objects) call" where
  "init =
     seq new_RandomForestRegressor (\<lambda>rf.
     seq new_Prophet (\<lambda>pm.
     seq new_StandardScaler (\<lambda>sc.
     ret \<lparr>rf_model = rf, prophet_model = pm, scaler = sc\<rparr>)))"

text \<open>
  \<^verbatim>\<open>prepare_prophet_data(df_input, state)\<close>. A state that is \<open>None\<close> or the empty string
  selects no region.
\<close>

definition prepare_prophet_data :: "frame option \<Rightarrow> string option \<Rightarrow> exn + frame option" where
  "prepare_prophet_data df_input state =
     (case df_input of
        None \<Rightarrow> Inr None
      | Some df \<Rightarrow>
         (case state of
            Some (c # cs) \<Rightarrow>
              (if ''State/UnionTerritory'' \<in> set (columns df)
               then map_sum id Some
                      (aggregate_by_date
                         (df\<lparr>rows := filter (\<lambda>r. r ''State/UnionTerritory'' = Str (c # cs))
                                         (rows df)\<rparr>))
               else Inr None)
          | _ \<Rightarrow> map_sum id Some (aggregate_by_date df)))"

text \<open>\<^verbatim>\<open>train_models(df)\<close>: returns the held-out part of the split.\<close>

definition train_models ::
  "('sc, 'rf, 'pm, 'g) library \<Rightarrow> parsers \<Rightarrow> 'g \<Rightarrow> engine \<Rightarrow> frame option \<Rightarrow>
     (cell list list \<times> cell list, ('sc, 'rf, 'pm) objects) call" where
  "train_models L P g self df =
     seq (pure_call (preprocess_frame P df)) (\<lambda>processed_df.
     seq (pure_call (getitem_list processed_df features)) (\<lambda>X.
     seq (pure_call (getitem processed_df ''Confirmed'')) (\<lambda>y.
     seq (scaler_fit_transform L (scaler self) X) (\<lambda>X_scaled.
     seq (from_library (train_test_split L (2 / 10) (Some 42) g X_scaled y))
       (\<lambda>(X_train, X_test, y_train, y_test).
     seq (forest_fit L (rf_model self) 100 (Some 42) g X_train y_train) (\<lambda>_.
     seq (pure_call (prepare_prophet_data df None)) (\<lambda>prophet_df.
     seq (prophet_fit L default_params g (prophet_model self) prophet_df) (\<lambda>_.
     ret (X_test, y_test)))))))))"



text \<open>
  \<^verbatim>\<open>get_state_predictions(df, state, days_to_predict)\<close>: a new Prophet object is
  constructed with the constructor's parameters, fitted on the aggregated series of
  the state's rows, and asked for the forecast.
\<close>

definition get_state_predictions ::
  "('sc, 'rf, 'pm, 'g) library \<Rightarrow> 'g \<Rightarrow> engine \<Rightarrow> frame option \<Rightarrow> string \<Rightarrow> nat \<Rightarrow>
     (frame, ('sc, 'rf, 'pm) objects) call" where
  "get_state_predictions L g self df state days_to_predict =
     seq (pure_call (filter_state df state)) (\<lambda>state_df.
     seq (pure_call (prepare_prophet_data (Some state_df) (Some state))) (\<lambda>prophet_df.
     seq new_Prophet (\<lambda>state_prophet.
     seq (prophet_fit L default_params g state_prophet prophet_df) (\<lambda>_.
     seq (prophet_make_future_dataframe L state_prophet days_to_predict) (\<lambda>future_dates.
     seq (prophet_predict L g state_prophet future_dates) (\<lambda>state_forecast.
     pure_call (select_columns state_forecast forecast_columns)))))))"

text \<open>
  An engine is untrained when none of its three objects is fitted: the state that the
  constructor leaves and that only \<^verbatim>\<open>train_models\<close> ends.
\<close>

definition untrained :: "engine \<Rightarrow> ('sc, 'rf, 'pm) objects \<Rightarrow> bool" where
  "untrained self s =
     (scalers s ! scaler self = None \<and> forests s ! rf_model self = None \<and>
      prophets s ! prophet_model self = None)"

text \<open>
  What \<^verbatim>\<open>train_models\<close> leaves in the scaler and in the forest of an engine that was
  untrained, as a function of the input: each of the two is fitted when the statements
  up to its fit have not raised.
\<close>

definition fitted_by_training ::
  "('sc, 'rf, 'pm, 'g) library \<Rightarrow> parsers \<Rightarrow> 'g \<Rightarrow> frame option \<Rightarrow> 'sc option \<times> 'rf option" where
  "fitted_by_training L P g df =
     (case preprocess_frame P df of Inl e \<Rightarrow> (None, None) | Inr processed_df \<Rightarrow>
      case getitem_list processed_df features of Inl e \<Rightarrow> (None, None) | Inr X \<Rightarrow>
      case getitem processed_df ''Confirmed'' of Inl e \<Rightarrow> (None, None) | Inr y \<Rightarrow>
      case StandardScaler_fit L X of Inl m \<Rightarrow> (None, None) | Inr sc \<Rightarrow>
      case StandardScaler_transform L sc X of Inl m \<Rightarrow> (Some sc, None) | Inr X_scaled \<Rightarrow>
      case train_test_split L (2 / 10) (Some 42) g X_scaled y of
        Inl m \<Rightarrow> (Some sc, None)
      | Inr (X_train, X_test, y_train, y_test) \<Rightarrow>
          (case RandomForestRegressor_fit L 100 (Some 42) g X_train y_train of
             Inl m \<Rightarrow> (Some sc, None)
           | Inr rf \<Rightarrow> (Some sc, Some rf)))"


section \<open>Example inputs\<close>

text \<open>
  Parsers that read two date strings and one number string and reject every other
  string, and small frames as \<^verbatim>\<open>pd.read_csv\<close> would deliver them.
\<close>

definition example_parsers :: parsers where
  "example_parsers =
     \<lparr>str_to_datetime = (\<lambda>s. if s = ''1970-01-01'' then Some 0
                             else if s = ''1970-01-02'' then Some 86400000000000 else None),
      str_to_numeric = (\<lambda>s. if s = ''7'' then Some 7 else None)\<rparr>"

definition mk_row :: "cell \<Rightarrow> cell \<Rightarrow> cell \<Rightarrow> cell \<Rightarrow> row" where
  "mk_row d s c x =
     (\<lambda>_. NaN)(''Date'' := d, ''State/UnionTerritory'' := s, ''Confirmed'' := c, ''Deaths'' := x)"

text \<open>Two regions observed on the same day, and one of them on the next day too.\<close>

definition two_regions :: frame where
  "two_regions =
     \<lparr>columns = [''Date'', ''State/UnionTerritory'', ''Confirmed'', ''Deaths''],
      datetime64 = [],
      rows = [mk_row (Str ''1970-01-02'') (Str ''Goa'') (Num 5) (Num 1),
              mk_row (Str ''1970-01-01'') (Str ''Goa'') (Num 3) (Str ''7''),
              mk_row (Str ''1970-01-01'') (Str ''Kerala'') (Num 10) NaN]\<rparr>"

text \<open>One observation with a negative and a fractional count.\<close>

definition negative_counts :: frame where
  "negative_counts =
     \<lparr>columns = [''Date'', ''State/UnionTerritory'', ''Confirmed'', ''Deaths''],
      datetime64 = [],
      rows = [mk_row (Str ''1970-01-01'') (Str ''Goa'') (Num (- 5)) (Num (1 / 2))]\<rparr>"


text \<open>A frame without a \<^verbatim>\<open>Date\<close> column.\<close>

definition no_dates :: frame where
  "no_dates =
     \<lparr>columns = [''State/UnionTerritory'', ''Confirmed'', ''Deaths''],
      datetime64 = [],
      rows = [mk_row NaN (Str ''Goa'') (Num 5) (Num 1)]\<rparr>"

text \<open>The frame \<open>two_regions\<close> as a loader delivers it, with the dates parsed.\<close>

definition two_regions_loaded :: frame where
  "two_regions_loaded =
     \<lparr>columns = [''Date'', ''State/UnionTerritory'', ''Confirmed'', ''Deaths''],
      datetime64 = [''Date''],
      rows = [mk_row (Dt 86400000000000) (Str ''Goa'') (Num 5) (Num 1),
              mk_row (Dt 0) (Str ''Goa'') (Num 3) (Num 7),
              mk_row (Dt 0) (Str ''Kerala'') (Num 10) NaN]\<rparr>"

text \<open>
  A stand-in for the libraries, to run the methods on: the scaler and the forest do
  nothing of interest; the decomposition model refuses a series of fewer than two
  rows, as Prophet does, remembers the series otherwise, and forecasts 0 with the band
  from \<open>-1\<close> to \<open>1\<close> on the dates of its history.
\<close>

definition example_library :: "(unit, unit, frame, nat) library" where
  "example_library =
     \<lparr>StandardScaler_fit = (\<lambda>X. Inr ()),
      StandardScaler_transform = (\<lambda>sc X. Inr X),
      train_test_split = (\<lambda>test_size random_state g X y. Inr (X, [], y, [])),
      RandomForestRegressor_fit = (\<lambda>n_estimators random_state g X y. Inr ()),
      RandomForestRegressor_predict = (\<lambda>rf X. Inr (map (\<lambda>_. 0) X)),
      mean_squared_error = (\<lambda>y p. Inr 0),
      r2_score = (\<lambda>y p. Inr 1),
      Prophet_fit = (\<lambda>params g df.
        case df of
          None \<Rightarrow> Inl ''Dataframe is None.''
        | Some f \<Rightarrow> if length (rows f) < 2 then Inl ''Dataframe has less than 2 non-NaN rows.''
                    else Inr f),
      Prophet_make_future_dataframe = (\<lambda>m periods.
        \<lparr>columns = [''ds''], datetime64 = [''ds''],
         rows = map (\<lambda>r. (\<lambda>_. NaN)(''ds'' := r ''ds'')) (rows m)\<rparr>),
      Prophet_predict = (\<lambda>m g future.
        Inr \<lparr>columns = [''ds'', ''trend'', ''yhat_lower'', ''yhat_upper'', ''yhat''],
             datetime64 = [''ds''],
             rows = map (\<lambda>r. r(''trend'' := Num 0, ''yhat_lower'' := Num (- 1),
                                ''yhat_upper'' := Num 1, ''yhat'' := Num 0)) (rows future)\<rparr>)\<rparr>"

text \<open>An engine right after its construction in an empty store, and a trained one.\<close>

definition new_engine :: engine where
  "new_engine = \<lparr>rf_model = 0, prophet_model = 0, scaler = 0\<rparr>"

definition new_objects :: "(unit, unit, frame) objects" where
  "new_objects = \<lparr>scalers = [None], forests = [None], prophets = [None]\<rparr>"

definition trained_objects :: "(unit, unit, frame) objects" where
  "trained_objects =
     \<lparr>scalers = [Some ()], forests = [Some ()], prophets = [Some two_regions_loaded]\<rparr>"

section \<open>Properties\<close>

subsection \<open>The store\<close>

lemma try_block_KeyError:
  "''Date'' \<notin> set (columns (h ! df)) \<Longrightarrow> try_block P df h = (Inl (KeyError ''Date''), [], h)"
  by (simp add: try_block_def)

lemma try_block_returns:
  assumes "df < length h" and "''Date'' \<in> set (columns (h ! df))"
  shows "try_block P df h =
           (Inr (length h), warnings P (h ! df),
            h[df := dropna ''Date'' (assign_Date P (h ! df))] @ [preprocessed P (h ! df)])"
  using assms
  by (simp add: try_block_def inplace_def alloc_def inplace_printing_def Let_def
        nth_append list_update_append warnings_def preprocessed_def coerced_def
        sorted_by_date_def)

lemma preprocess_data_None:
  "preprocess_data P None h = (Inr None, [''Input DataFrame is None in preprocess_data''], h)"
  by (simp add: preprocess_data_def)

lemma preprocess_data_KeyError:
  assumes "''Date'' \<notin> set (columns (h ! a))"
  shows "preprocess_data P (Some a) h =
           (Inr None, [''Error in preprocess_data: '' @ str_exn (KeyError ''Date'')], h @ [h ! a])"
  using assms by (simp add: preprocess_data_def alloc_def try_block_KeyError)

lemma preprocess_data_returns:
  assumes "''Date'' \<in> set (columns (h ! a))"
  shows "preprocess_data P (Some a) h =
           (Inr (Some (Suc (length h))), warnings P (h ! a),
            h @ [dropna ''Date'' (assign_Date P (h ! a)), preprocessed P (h ! a)])"
  using assms by (simp add: preprocess_data_def alloc_def try_block_returns)

lemma preprocess_data_Some_heap:
  assumes "preprocess_data P (Some a) h = (Inr (Some r), out, h')"
  shows "''Date'' \<in> set (columns (h ! a)) \<and> r = Suc (length h) \<and>
         h' = h @ [dropna ''Date'' (assign_Date P (h ! a)), preprocessed P (h ! a)]"
proof (cases "''Date'' \<in> set (columns (h ! a))")
  case True
  from assms True show ?thesis
    unfolding preprocess_data_returns [OF True] by auto
next
  case False
  from assms show ?thesis
    unfolding preprocess_data_KeyError [OF False] by simp
qed

lemma preprocess_data_Some_result:
  assumes "preprocess_data P (Some a) h = (Inr (Some r), out, h')"
  shows "''Date'' \<in> set (columns (h ! a))" and "h' ! r = preprocessed P (h ! a)"
    and "out = warnings P (h ! a)"
proof -
  from preprocess_data_Some_heap [OF assms]
  show date: "''Date'' \<in> set (columns (h ! a))" by simp
  from assms show "out = warnings P (h ! a)"
    unfolding preprocess_data_returns [OF date] by simp
  from preprocess_data_Some_heap [OF assms]
  show "h' ! r = preprocessed P (h ! a)" by (simp add: nth_append)
qed

subsection \<open>Columns under assignment\<close>

lemma length_col [simp]: "length (col f c) = length (rows f)"
  by (simp add: col_def)

lemma columns_setitem [simp]: "set (columns (setitem c vals f)) = insert c (set (columns f))"
  by (auto simp: setitem_def)

lemma length_rows_setitem [simp]:
  "length vals = length (rows f) \<Longrightarrow> length (rows (setitem c vals f)) = length (rows f)"
  by (simp add: setitem_def)

lemma map_col_map2_upd:
  "length rs = length vals \<Longrightarrow>
   map (\<lambda>r. r c') (map2 (\<lambda>r v. r(c := v)) rs vals) = (if c' = c then vals else map (\<lambda>r. r c') rs)"
  by (induction rs vals rule: list_induct2) auto

lemma col_setitem:
  assumes "length vals = length (rows f)"
  shows "col (setitem c vals f) c' = (if c' = c then vals else col f c')"
  using map_col_map2_upd [of "rows f" vals c' c] assms
  by (simp add: col_def setitem_def)

lemma columns_setitem_datetime [simp]:
  "set (columns (setitem_datetime c vals f)) = insert c (set (columns f))"
  by (simp add: setitem_datetime_def)

lemma length_rows_setitem_datetime [simp]:
  "length vals = length (rows f) \<Longrightarrow> length (rows (setitem_datetime c vals f)) = length (rows f)"
  by (simp add: setitem_datetime_def)

lemma col_setitem_datetime:
  assumes "length vals = length (rows f)"
  shows "col (setitem_datetime c vals f) c' = (if c' = c then vals else col f c')"
  using col_setitem [OF assms, of c c'] by (simp add: setitem_datetime_def col_def)

lemma columns_setitem_scalar [simp]:
  "set (columns (setitem_scalar c v f)) = insert c (set (columns f))"
  by (simp add: setitem_scalar_def)

lemma length_rows_setitem_scalar [simp]:
  "length (rows (setitem_scalar c v f)) = length (rows f)"
  by (simp add: setitem_scalar_def)

lemma col_setitem_scalar:
  "col (setitem_scalar c v f) c' = (if c' = c then replicate (length (rows f)) v else col f c')"
  by (simp add: setitem_scalar_def col_setitem)

lemma nth_rows [simp]: "i < length (rows f) \<Longrightarrow> (rows f ! i) c = col f c ! i"
  by (simp add: col_def)

subsection \<open>The stages of preprocess\_data, column by column\<close>

lemma length_rows_assign_calendar [simp]:
  "length (rows (assign_calendar f)) = length (rows f)"
  by (simp add: assign_calendar_def Let_def)

lemma columns_assign_calendar [simp]:
  "set (columns (assign_calendar f)) =
     {''Day'', ''Month'', ''Year'', ''DayOfWeek''} \<union> set (columns f)"
  by (auto simp: assign_calendar_def Let_def)

lemma col_assign_calendar:
  assumes "c \<notin> {''Day'', ''Month'', ''Year'', ''DayOfWeek''}"
  shows "col (assign_calendar f) c = col f c"
  using assms by (simp add: assign_calendar_def Let_def col_setitem)

lemma length_rows_coerce_numeric [simp]:
  "length (rows (snd (coerce_numeric P c f))) = length (rows f)"
  by (simp add: coerce_numeric_def)

lemma columns_coerce_numeric [simp]:
  "set (columns (snd (coerce_numeric P c f))) = insert c (set (columns f))"
  by (simp add: coerce_numeric_def)

lemma col_coerce_numeric:
  "col (snd (coerce_numeric P c f)) c' =
     (if c' \<noteq> c then col f c'
      else if c \<in> set (columns f) then map (fillna 0 \<circ> to_numeric P) (col f c)
      else replicate (length (rows f)) (Num 0))"
  by (simp add: coerce_numeric_def col_setitem col_setitem_scalar)

lemma length_groupby_rolling_mean7 [simp]:
  "length (groupby_rolling_mean7 key c f) = length (rows f)"
  by (simp add: groupby_rolling_mean7_def)

lemma length_rows_assign_MA7 [simp]:
  "length (rows (assign_MA7 src dst f)) = length (rows f)"
  by (simp add: assign_MA7_def)

lemma columns_assign_MA7 [simp]:
  "set (columns (assign_MA7 src dst f)) = insert dst (set (columns f))"
  by (simp add: assign_MA7_def)

lemma col_assign_MA7:
  "col (assign_MA7 src dst f) c' =
     (if c' \<noteq> dst then col f c'
      else if ''State/UnionTerritory'' \<in> set (columns f) \<and> src \<in> set (columns f)
      then groupby_rolling_mean7 ''State/UnionTerritory'' src f
      else replicate (length (rows f)) (Num 0))"
  by (simp add: assign_MA7_def col_setitem col_setitem_scalar)

lemma columns_assign_Date:
  "''Date'' \<in> set (columns f) \<Longrightarrow> set (columns (assign_Date P f)) = set (columns f)"
  by (auto simp: assign_Date_def)

lemma length_rows_assign_Date [simp]:
  "length (rows (assign_Date P f)) = length (rows f)"
  by (simp add: assign_Date_def)

lemma col_assign_Date_other:
  "c \<noteq> ''Date'' \<Longrightarrow> col (assign_Date P f) c = col f c"
  by (simp add: assign_Date_def col_setitem_datetime)


lemma columns_sorted_by_date:
  "''Date'' \<in> set (columns f) \<Longrightarrow> set (columns (sorted_by_date P f)) = set (columns f)"
  by (simp add: sorted_by_date_def sort_values_def dropna_def columns_assign_Date)

lemma rows_sorted_by_date:
  "rows (sorted_by_date P f) =
     sort_key (\<lambda>r. timestamp (r ''Date'')) (filter (\<lambda>r. r ''Date'' \<noteq> NaN) (rows (assign_Date P f)))"
  by (simp add: sorted_by_date_def sort_values_def dropna_def)

lemma columns_coerced:
  "''Date'' \<in> set (columns f) \<Longrightarrow>
   set (columns (coerced P f)) =
     {''Day'', ''Month'', ''Year'', ''DayOfWeek'', ''Confirmed'', ''Deaths''} \<union> set (columns f)"
  by (auto simp: coerced_def columns_sorted_by_date)

lemma length_rows_coerced [simp]:
  "length (rows (coerced P f)) = length (rows (sorted_by_date P f))"
  by (simp add: coerced_def)

lemma length_rows_preprocessed [simp]:
  "length (rows (preprocessed P f)) = length (rows (sorted_by_date P f))"
  by (simp add: preprocessed_def)

lemma col_coerced_other:
  assumes "c \<notin> {''Day'', ''Month'', ''Year'', ''DayOfWeek'', ''Confirmed'', ''Deaths''}"
  shows "col (coerced P f) c = col (sorted_by_date P f) c"
  using assms by (simp add: coerced_def col_coerce_numeric col_assign_calendar)

lemma col_coerced_Confirmed:
  assumes "''Date'' \<in> set (columns f)"
  shows "col (coerced P f) ''Confirmed'' =
           (if ''Confirmed'' \<in> set (columns f)
            then map (fillna 0 \<circ> to_numeric P) (col (sorted_by_date P f) ''Confirmed'')
            else replicate (length (rows (sorted_by_date P f))) (Num 0))"
  using assms
  by (simp add: coerced_def col_coerce_numeric col_assign_calendar columns_sorted_by_date)

lemma col_coerced_Deaths:
  assumes "''Date'' \<in> set (columns f)"
  shows "col (coerced P f) ''Deaths'' =
           (if ''Deaths'' \<in> set (columns f)
            then map (fillna 0 \<circ> to_numeric P) (col (sorted_by_date P f) ''Deaths'')
            else replicate (length (rows (sorted_by_date P f))) (Num 0))"
  using assms
  by (simp add: coerced_def col_coerce_numeric col_assign_calendar columns_sorted_by_date)

lemma col_preprocessed_other:
  assumes "c \<notin> {''Confirmed_MA7'', ''Death_MA7''}"
  shows "col (preprocessed P f) c = col (coerced P f) c"
  using assms by (simp add: preprocessed_def col_assign_MA7)

lemma col_preprocessed_Confirmed_MA7:
  assumes "''Date'' \<in> set (columns f)"
  shows "col (preprocessed P f) ''Confirmed_MA7'' =
           (if ''State/UnionTerritory'' \<in> set (columns f)
            then groupby_rolling_mean7 ''State/UnionTerritory'' ''Confirmed'' (coerced P f)
            else replicate (length (rows (sorted_by_date P f))) (Num 0))"
  using assms by (simp add: preprocessed_def col_assign_MA7 columns_coerced)

lemma col_preprocessed_Death_MA7:
  assumes "''Date'' \<in> set (columns f)"
  shows "col (preprocessed P f) ''Death_MA7'' =
           (if ''State/UnionTerritory'' \<in> set (columns f)
            then groupby_rolling_mean7 ''State/UnionTerritory'' ''Deaths''
                   (assign_MA7 ''Confirmed'' ''Confirmed_MA7'' (coerced P f))
            else replicate (length (rows (sorted_by_date P f))) (Num 0))"
  using assms by (simp add: preprocessed_def col_assign_MA7 columns_coerced)

lemma warnings_eq:
  assumes "''Date'' \<in> set (columns f)"
  shows "warnings P f =
           (if ''Confirmed'' \<in> set (columns f) then []
            else [''Warning: Column Confirmed not found for rolling average.'']) @
           (if ''Deaths'' \<in> set (columns f) then []
            else [''Warning: Column Deaths not found for rolling average.''])"
  using assms by (simp add: warnings_def coerce_numeric_def columns_sorted_by_date)

subsection \<open>Rows of the output come from rows of the input\<close>

lemma rows_assign_Date_cells:
  assumes "r1 \<in> set (rows (assign_Date P f))"
  shows "\<exists>r0\<in>set (rows f). \<forall>c. c \<noteq> ''Date'' \<longrightarrow> r1 c = r0 c"
proof -
  from assms obtain i where i: "i < length (rows f)" and r1: "r1 = rows (assign_Date P f) ! i"
    by (auto simp: in_set_conv_nth)
  have "\<forall>c. c \<noteq> ''Date'' \<longrightarrow> r1 c = (rows f ! i) c"
    using i r1 by (simp add: col_assign_Date_other)
  with i show ?thesis by (meson nth_mem)
qed

lemma rows_sorted_by_date_cells:
  assumes "r1 \<in> set (rows (sorted_by_date P f))"
  shows "\<exists>r0\<in>set (rows f). \<forall>c. c \<noteq> ''Date'' \<longrightarrow> r1 c = r0 c"
  using assms rows_assign_Date_cells [of r1 P f] by (simp add: rows_sorted_by_date)

lemma fillna_to_numeric_Num: "\<exists>q. fillna 0 (to_numeric P x) = Num q"
  by (cases x) (auto split: option.splits)

subsection \<open>The date column of the output\<close>









subsection \<open>Rolling means within the groups of a frame\<close>

lemma filter_nth_index:
  "j < length (filter Q xs) \<Longrightarrow>
   \<exists>i<length xs. filter Q xs ! j = xs ! i \<and> Q (xs ! i) \<and> length (filter Q (take i xs)) = j"
proof (induction xs arbitrary: j)
  case Nil
  then show ?case by simp
next
  case (Cons x xs)
  show ?case
  proof (cases "Q x")
    case False
    with Cons.prems have "j < length (filter Q xs)" by simp
    from Cons.IH [OF this] obtain i where
      "i < length xs" "filter Q xs ! j = xs ! i" "Q (xs ! i)" "length (filter Q (take i xs)) = j"
      by blast
    with False have "Suc i < length (x # xs) \<and> filter Q (x # xs) ! j = (x # xs) ! Suc i \<and>
        Q ((x # xs) ! Suc i) \<and> length (filter Q (take (Suc i) (x # xs))) = j"
      by simp
    then show ?thesis by blast
  next
    case True
    show ?thesis
    proof (cases j)
      case 0
      with True have "0 < length (x # xs) \<and> filter Q (x # xs) ! j = (x # xs) ! 0 \<and>
          Q ((x # xs) ! 0) \<and> length (filter Q (take 0 (x # xs))) = j"
        by simp
      then show ?thesis by blast
    next
      case (Suc j')
      with True Cons.prems have "j' < length (filter Q xs)" by simp
      from Cons.IH [OF this] obtain i where
        "i < length xs" "filter Q xs ! j' = xs ! i" "Q (xs ! i)" "length (filter Q (take i xs)) = j'"
        by blast
      with True Suc have "Suc i < length (x # xs) \<and> filter Q (x # xs) ! j = (x # xs) ! Suc i \<and>
          Q ((x # xs) ! Suc i) \<and> length (filter Q (take (Suc i) (x # xs))) = j"
        by simp
      then show ?thesis by blast
    qed
  qed
qed

lemma map_filter_related:
  "list_all2 (\<lambda>x y. Q x = Q' y \<and> f x = g y) xs ys \<Longrightarrow>
   map f (filter Q xs) = map g (filter Q' ys)"
  by (induction rule: list_all2_induct) auto

lemma rolling_mean7_nth:
  "j < length xs \<Longrightarrow> rolling_mean7 xs ! j = mean (window7 xs j)"
  by (simp add: rolling_mean7_def)

lemma groupby_rolling_mean7_nth:
  assumes "i < length (rows f)"
  shows "groupby_rolling_mean7 key c f ! i =
           (if col f key ! i = NaN then NaN
            else Num (rolling_mean7 (map (\<lambda>r. num_of (r c))
                        (filter (\<lambda>r. r key = col f key ! i) (rows f)))
                      ! length (filter (\<lambda>r. r key = col f key ! i) (take i (rows f)))))"
  using assms by (simp add: groupby_rolling_mean7_def Let_def)

lemma MA7_within_group:
  assumes len: "length (rows g) = length (rows f0)"
    and key: "col g key = col f0 key"
    and src: "col g src = col f0 src"
    and dst: "col g dst = groupby_rolling_mean7 key src f0"
    and k: "k \<noteq> NaN"
    and j: "j < length (filter (\<lambda>r. r key = k) (rows g))"
  shows "(filter (\<lambda>r. r key = k) (rows g) ! j) dst =
           Num (mean (window7 (map (\<lambda>r. num_of (r src)) (filter (\<lambda>r. r key = k) (rows g))) j))"
proof -
  let ?Q = "\<lambda>r. r key = k"
  let ?val = "\<lambda>r. num_of (r src)"
  from filter_nth_index [OF j] obtain i where i: "i < length (rows g)"
    and nth: "filter ?Q (rows g) ! j = rows g ! i"
    and Qi: "(rows g ! i) key = k"
    and pos: "length (filter ?Q (take i (rows g))) = j"
    by blast
  have rel: "list_all2 (\<lambda>x y. ?Q x = ?Q y \<and> ?val x = ?val y) (rows f0) (rows g)"
    unfolding list_all2_conv_all_nth using len key src by simp
  have vals: "map ?val (filter ?Q (rows f0)) = map ?val (filter ?Q (rows g))"
    by (rule map_filter_related [OF rel])
  have "map ?val (filter ?Q (take i (rows f0))) = map ?val (filter ?Q (take i (rows g)))"
    by (rule map_filter_related [OF list_all2_takeI [OF rel]])
  then have "length (filter ?Q (take i (rows f0))) = length (filter ?Q (take i (rows g)))"
    by (rule map_eq_imp_length_eq)
  with pos have pos0: "length (filter ?Q (take i (rows f0))) = j" by simp
  have ki: "col f0 key ! i = k"
    using Qi i key by simp
  have "(filter ?Q (rows g) ! j) dst = col g dst ! i"
    using nth i by simp
  also have "\<dots> = Num (rolling_mean7 (map ?val (filter ?Q (rows f0))) ! j)"
    using i len k by (simp add: dst groupby_rolling_mean7_nth ki pos0)
  also have "\<dots> = Num (mean (window7 (map ?val (filter ?Q (rows g))) j))"
    using j by (simp add: vals rolling_mean7_nth)
  finally show ?thesis .
qed

lemma window7_last:
  "window7 xs i = drop (i + 1 - min (i + 1) 7) (take (i + 1) xs)"
proof -
  have "i + 1 - min (i + 1) 7 = i + 1 - 7" by simp
  then show ?thesis by (simp only: window7_def)
qed

lemma length_window7:
  "i < length xs \<Longrightarrow> length (window7 xs i) = min (i + 1) 7"
  by (auto simp: window7_def)

lemma mean_constant:
  assumes "xs \<noteq> []" and "\<forall>x\<in>set xs. x = v"
  shows "mean xs = v"
proof -
  from assms(2) have "xs = replicate (length xs) v"
    by (simp add: replicate_length_same)
  then have "sum_list xs = of_nat (length xs) * v"
    by (metis sum_list_replicate)
  with assms(1) show ?thesis by (simp add: mean_def)
qed

lemma window7_subset: "set (window7 xs i) \<subseteq> set xs"
  unfolding window7_def by (meson set_drop_subset set_take_subset subset_trans)

lemma window7_first: "xs \<noteq> [] \<Longrightarrow> window7 xs 0 = [xs ! 0]"
  by (cases xs) (simp_all add: window7_def)

lemma mean_single: "mean [x] = x"
  by (simp add: mean_def)

lemma col_preprocessed_counts:
  assumes "''Date'' \<in> set (columns f)" and "c = ''Confirmed'' \<or> c = ''Deaths''"
  shows "col (preprocessed P f) c =
      (if c \<in> set (columns f) then map (fillna 0 \<circ> to_numeric P) (col (sorted_by_date P f) c)
       else replicate (length (rows (sorted_by_date P f))) (Num 0))"
  using assms
  by (auto simp: col_preprocessed_other col_coerced_Confirmed col_coerced_Deaths)

lemma col_preprocessed_counts_Num:
  assumes "''Date'' \<in> set (columns f)" and "c = ''Confirmed'' \<or> c = ''Deaths''"
    and "x \<in> set (col (preprocessed P f) c)"
  shows "\<exists>q. x = Num q"
  using assms(3) fillna_to_numeric_Num [of P]
  unfolding col_preprocessed_counts [OF assms(1,2)] by (auto split: if_splits)

lemma preprocessed_MA7:
  assumes date: "''Date'' \<in> set (columns f)"
    and state: "''State/UnionTerritory'' \<in> set (columns f)"
    and cols: "(src, dst) = (''Confirmed'', ''Confirmed_MA7'') \<or> (src, dst) = (''Deaths'', ''Death_MA7'')"
    and k: "k \<noteq> NaN"
    and j: "j < length (filter (\<lambda>r. r ''State/UnionTerritory'' = k) (rows (preprocessed P f)))"
  shows "(filter (\<lambda>r. r ''State/UnionTerritory'' = k) (rows (preprocessed P f)) ! j) dst =
           Num (mean (window7 (map (\<lambda>r. num_of (r src))
             (filter (\<lambda>r. r ''State/UnionTerritory'' = k) (rows (preprocessed P f)))) j))"
proof -
  from cols consider "src = ''Confirmed''" "dst = ''Confirmed_MA7''"
    | "src = ''Deaths''" "dst = ''Death_MA7''" by auto
  then show ?thesis
  proof cases
    case 1
    show ?thesis
      unfolding 1
      by (rule MA7_within_group [where ?f0.0 = "coerced P f", OF _ _ _ _ k j])
         (simp_all add: col_preprocessed_other col_preprocessed_Confirmed_MA7 [OF date] state)
  next
    case 2
    show ?thesis
      unfolding 2
      by (rule MA7_within_group
            [where ?f0.0 = "assign_MA7 ''Confirmed'' ''Confirmed_MA7'' (coerced P f)", OF _ _ _ _ k j])
         (simp_all add: col_preprocessed_other col_preprocessed_Death_MA7 [OF date] state
            col_assign_MA7)
  qed
qed


lemma map_filter_by_key:
  "map (\<lambda>r. f (r src)) (filter (\<lambda>r. r key = k) rs) =
     map (f \<circ> snd) (filter (\<lambda>p. fst p = k) (zip (map (\<lambda>r. r key) rs) (map (\<lambda>r. r src) rs)))"
  by (induction rs) auto

lemma two_regions_states:
  "col (sorted_by_date example_parsers two_regions) ''State/UnionTerritory'' =
     [Str ''Goa'', Str ''Kerala'', Str ''Goa'']"
  by (simp add: col_def rows_sorted_by_date assign_Date_def two_regions_def example_parsers_def
      is_datetime64_any_dtype_def setitem_datetime_def setitem_def mk_row_def)

lemma two_regions_confirmed:
  "col (sorted_by_date example_parsers two_regions) ''Confirmed'' = [Num 3, Num 10, Num 5]"
  by (simp add: col_def rows_sorted_by_date assign_Date_def two_regions_def example_parsers_def
      is_datetime64_any_dtype_def setitem_datetime_def setitem_def mk_row_def)

subsection \<open>A store that holds one frame\<close>

lemma preprocess_data_example:
  assumes "''Date'' \<in> set (columns f)"
  shows "preprocess_data P (Some 0) [f] =
           (Inr (Some 2), warnings P f, [f, dropna ''Date'' (assign_Date P f), preprocessed P f])"
  using preprocess_data_returns [of "[f]" 0 P] assms by (simp add: numeral_2_eq_2)

subsection \<open>The methods of the engine\<close>

lemma init_result:
  "init s = (Inr \<lparr>rf_model = length (forests s), prophet_model = length (prophets s),
                   scaler = length (scalers s)\<rparr>,
             \<lparr>scalers = scalers s @ [None], forests = forests s @ [None],
              prophets = prophets s @ [None]\<rparr>)"
  by (simp add: init_def seq_def ret_def raise_def pure_call_def from_library_def new_RandomForestRegressor_def new_Prophet_def
        new_StandardScaler_def)

lemma init_untrained:
  "init s = (Inr self, s') \<Longrightarrow> untrained self s'"
  by (auto simp: init_result untrained_def)

lemma preprocess_frame_Some:
  "''Date'' \<in> set (columns f) \<Longrightarrow> preprocess_frame P (Some f) = Inr (Some (preprocessed P f))"
  by (simp add: preprocess_frame_def preprocess_data_example)



lemma columns_preprocessed:
  "''Date'' \<in> set (columns f) \<Longrightarrow>
   set (columns (preprocessed P f)) =
     {''Confirmed_MA7'', ''Death_MA7'', ''Day'', ''Month'', ''Year'', ''DayOfWeek'',
      ''Confirmed'', ''Deaths''} \<union> set (columns f)"
  by (auto simp: preprocessed_def columns_coerced)

lemma getitem_list_features:
  assumes "''Date'' \<in> set (columns f)"
  shows "getitem_list (Some (preprocessed P f)) features =
           Inr (map (\<lambda>r. map r features) (rows (preprocessed P f)))"
  by (simp add: getitem_list_def features_def columns_preprocessed [OF assms])



lemma get_state_predictions_no_frame:
  "filter_state df state = Inl e \<Longrightarrow> get_state_predictions L g self df state days s = (Inl e, s)"
  by (simp add: get_state_predictions_def seq_def pure_call_def)

lemma get_state_predictions_no_series:
  "filter_state df state = Inr state_df \<Longrightarrow>
   prepare_prophet_data (Some state_df) (Some state) = Inl e \<Longrightarrow>
   get_state_predictions L g self df state days s = (Inl e, s)"
  by (simp add: get_state_predictions_def seq_def pure_call_def)

lemma get_state_predictions_run:
  assumes "filter_state df state = Inr state_df"
    and "prepare_prophet_data (Some state_df) (Some state) = Inr prophet_df"
  shows "get_state_predictions L g self df state days s =
     (case Prophet_fit L default_params g prophet_df of
        Inl msg \<Rightarrow> (Inl (ValueError msg), s\<lparr>prophets := prophets s @ [None]\<rparr>)
      | Inr m \<Rightarrow>
          ((case Prophet_predict L m g (Prophet_make_future_dataframe L m days) of
              Inl msg \<Rightarrow> Inl (ValueError msg)
            | Inr fc \<Rightarrow> select_columns fc forecast_columns),
           s\<lparr>prophets := prophets s @ [Some m]\<rparr>))"
  using assms
  by (simp add: get_state_predictions_def seq_def pure_call_def new_Prophet_def prophet_fit_def
        from_library_def raise_def ret_def prophet_make_future_dataframe_def prophet_predict_def
        split: sum.splits)

lemma filter_state_no_rows:
  assumes "filter_state (Some f) state = Inr state_df"
    and "\<forall>r\<in>set (rows f). r ''State/UnionTerritory'' \<noteq> Str state"
  shows "rows state_df = []" and "columns state_df = columns f"
  using assms by (auto simp: filter_state_def split: if_splits)

lemma aggregate_by_date_no_rows:
  assumes "rows f = []" and "aggregate_by_date f = Inr g"
  shows "rows g = []"
  using assms
  by (auto simp: aggregate_by_date_def col_def sort_keys_def split: list.splits sum.splits)

lemma prepare_prophet_data_no_rows:
  assumes "rows f = []" and "prepare_prophet_data (Some f) state = Inr prophet_df"
  shows "prophet_df = None \<or> (\<exists>g. prophet_df = Some g \<and> rows g = [])"
proof -
  have 1: "rows g = []" if "aggregate_by_date (f\<lparr>rows := filter Q (rows f)\<rparr>) = Inr g" for Q g
    using aggregate_by_date_no_rows [OF _ that] assms(1) by simp
  have 2: "rows g = []" if "aggregate_by_date f = Inr g" for g
    using aggregate_by_date_no_rows [OF assms(1) that] .
  from assms(2) show ?thesis
    by (auto simp: prepare_prophet_data_def map_sum_def dest: 1 2
          split: if_splits sum.splits option.splits list.splits)
qed

lemma prepare_prophet_data_after_filter:
  assumes "filter_state df state = Inr state_df"
    and "prepare_prophet_data (Some state_df) (Some state) = Inr prophet_df"
  shows "prophet_df \<noteq> None"
proof -
  from assms(1) have "''State/UnionTerritory'' \<in> set (columns state_df)"
    by (auto simp: filter_state_def split: option.splits if_splits)
  with assms(2) show ?thesis
    by (auto simp: prepare_prophet_data_def map_sum_def split: sum.splits list.splits)
qed

text \<open>
  The forecast that \<^verbatim>\<open>predict\<close> and \<^verbatim>\<open>get_state_predictions\<close> return holds the four
  columns of the library's frame as they are, row for row.
\<close>

lemma select_columns_forecast:
  assumes "select_columns fc forecast_columns = Inr f"
  shows "columns f = forecast_columns \<and> length (rows f) = length (rows fc) \<and>
         col f ''ds'' = col fc ''ds'' \<and> col f ''yhat'' = col fc ''yhat'' \<and>
         col f ''yhat_lower'' = col fc ''yhat_lower'' \<and>
         col f ''yhat_upper'' = col fc ''yhat_upper''"
  using assms
  by (auto simp: select_columns_def forecast_columns_def col_def split: list.splits if_splits)

lemma train_models_fitted:
  assumes "scaler self < length (scalers s)" and "rf_model self < length (forests s)"
    and "untrained self s"
    and "train_models L P g self df s = (r, t)"
  shows "scalers t ! scaler self = fst (fitted_by_training L P g df) \<and>
         forests t ! rf_model self = snd (fitted_by_training L P g df)"
  using assms
  by (auto simp: train_models_def fitted_by_training_def untrained_def seq_def ret_def raise_def
        pure_call_def from_library_def scaler_fit_transform_def forest_fit_def prophet_fit_def
        split: sum.splits prod.splits option.splits)

lemma fitted_by_training_seeded:
  assumes "\<forall>t sd g g' X y. train_test_split L t (Some sd) g X y = train_test_split L t (Some sd) g' X y"
    and "\<forall>n sd g g' X y. RandomForestRegressor_fit L n (Some sd) g X y =
                            RandomForestRegressor_fit L n (Some sd) g' X y"
  shows "fitted_by_training L P g1 df = fitted_by_training L P g2 df"
proof -
  have 1: "train_test_split L t (Some sd) g1 X y = train_test_split L t (Some sd) g2 X y" for t sd X y
    using assms(1) by blast
  have 2: "RandomForestRegressor_fit L n (Some sd) g1 X y = RandomForestRegressor_fit L n (Some sd) g2 X y"
    for n sd X y
    using assms(2) by blast
  show ?thesis
    by (simp add: fitted_by_training_def 1 2 cong: sum.case_cong prod.case_cong)
qed

lemma init_addresses:
  assumes "init s = (Inr self, s')"
  shows "scaler self < length (scalers s')" and "rf_model self < length (forests s')"
    and "untrained self s'"
  using assms by (auto simp: init_result untrained_def)

subsection \<open>The example frames\<close>



lemma filter_state_Delhi:
  "filter_state (Some two_regions_loaded) ''Delhi'' = Inr (two_regions_loaded\<lparr>rows := []\<rparr>)"
  by (simp add: filter_state_def two_regions_loaded_def mk_row_def)

lemma prepare_Delhi:
  "prepare_prophet_data (Some (two_regions_loaded\<lparr>rows := []\<rparr>)) (Some ''Delhi'') =
     Inr (Some \<lparr>columns = [''ds'', ''y'', ''Deaths''], datetime64 = [''ds''], rows = []\<rparr>)"
  by (simp add: prepare_prophet_data_def aggregate_by_date_def two_regions_loaded_def col_def
        sort_keys_def is_datetime64_any_dtype_def)

lemma filter_state_Goa:
  "\<exists>f. filter_state (Some two_regions_loaded) ''Goa'' = Inr f \<and>
       columns f = [''Date'', ''State/UnionTerritory'', ''Confirmed'', ''Deaths''] \<and>
       map (\<lambda>r. (r ''Date'', r ''State/UnionTerritory'', r ''Confirmed'', r ''Deaths'')) (rows f) =
         [(Dt 86400000000000, Str ''Goa'', Num 5, Num 1), (Dt 0, Str ''Goa'', Num 3, Num 7)]"
  by (simp add: filter_state_def two_regions_loaded_def mk_row_def)

lemma prepare_Goa:
  assumes "columns f = [''Date'', ''State/UnionTerritory'', ''Confirmed'', ''Deaths'']"
    and "map (\<lambda>r. (r ''Date'', r ''State/UnionTerritory'', r ''Confirmed'', r ''Deaths'')) (rows f) =
         [(Dt 86400000000000, Str ''Goa'', Num 5, Num 1), (Dt 0, Str ''Goa'', Num 3, Num 7)]"
  shows "\<exists>g. prepare_prophet_data (Some f) (Some ''Goa'') = Inr (Some g) \<and>
             length (rows g) = 2 \<and>
             map (\<lambda>r. (r ''ds'', r ''y'')) (rows g) = [(Dt 0, Num 3), (Dt 86400000000000, Num 5)]"
proof -
  from assms(2) obtain r1 r2 where rs: "rows f = [r1, r2]"
    and r1: "r1 ''Date'' = Dt 86400000000000" "r1 ''State/UnionTerritory'' = Str ''Goa''"
            "r1 ''Confirmed'' = Num 5" "r1 ''Deaths'' = Num 1"
    and r2: "r2 ''Date'' = Dt 0" "r2 ''State/UnionTerritory'' = Str ''Goa''"
            "r2 ''Confirmed'' = Num 3" "r2 ''Deaths'' = Num 7"
    by auto
  show ?thesis
    by (simp add: prepare_prophet_data_def aggregate_by_date_def assms(1) rs r1 r2 col_def
          sort_keys_def aggregate_row_def)
qed

section \<open>Coercion of the counts (claim C6)\<close>

text \<open>
  Claim C6, as the code has it. In every frame that \<^verbatim>\<open>preprocess_data\<close> returns, each
  cell of the columns \<^verbatim>\<open>Confirmed\<close> and \<^verbatim>\<open>Deaths\<close> is a number, never a missing
  value. When the input has the column, each output cell is the coerced cell of an input
  row: a number is kept as it is (a negative or fractional one too), a string that the
  numeric parser reads becomes that number, and a missing value or any other string
  becomes 0. When the input lacks the column, every cell is 0. Nothing clamps a value
  at zero and nothing rounds it to an integer.
\<close>

theorem preprocess_data_coerces_counts:
  assumes "preprocess_data P (Some a) h = (Inr (Some r), out, h')"
    and "c = ''Confirmed'' \<or> c = ''Deaths''"
  shows "(\<forall>x\<in>set (col (h' ! r) c). \<exists>q. x = Num q) \<and>
         (c \<in> set (columns (h ! a)) \<longrightarrow>
            (\<forall>r1\<in>set (rows (h' ! r)). \<exists>r0\<in>set (rows (h ! a)).
               r1 c = fillna 0 (to_numeric P (r0 c)) \<and>
               r1 ''State/UnionTerritory'' = r0 ''State/UnionTerritory'')) \<and>
         (c \<notin> set (columns (h ! a)) \<longrightarrow> (\<forall>x\<in>set (col (h' ! r) c). x = Num 0)) \<and>
         (\<forall>q. fillna 0 (to_numeric P (Num q)) = Num q) \<and>
         fillna 0 (to_numeric P NaN) = Num 0 \<and>
         (\<forall>s. fillna 0 (to_numeric P (Str s)) =
                (case str_to_numeric P s of Some q \<Rightarrow> Num q | None \<Rightarrow> Num 0))"
proof -
  let ?f = "h ! a"
  have date: "''Date'' \<in> set (columns ?f)" and res: "h' ! r = preprocessed P ?f"
    using preprocess_data_Some_result [OF assms(1)] by blast+
  have colc: "col (h' ! r) c =
      (if c \<in> set (columns ?f) then map (fillna 0 \<circ> to_numeric P) (col (sorted_by_date P ?f) c)
       else replicate (length (rows (sorted_by_date P ?f))) (Num 0))"
    using assms(2) date
    by (auto simp: res col_preprocessed_other col_coerced_Confirmed col_coerced_Deaths)
  have 1: "\<forall>x\<in>set (col (h' ! r) c). \<exists>q. x = Num q"
    unfolding colc using fillna_to_numeric_Num by auto
  have 2: "\<exists>r0\<in>set (rows ?f). r1 c = fillna 0 (to_numeric P (r0 c)) \<and>
             r1 ''State/UnionTerritory'' = r0 ''State/UnionTerritory''"
    if c: "c \<in> set (columns ?f)" and r1: "r1 \<in> set (rows (h' ! r))" for r1
  proof -
    from r1 obtain i where i: "i < length (rows (sorted_by_date P ?f))"
      and r1i: "r1 = rows (h' ! r) ! i"
      by (auto simp: in_set_conv_nth res)
    have "r1 c = fillna 0 (to_numeric P ((rows (sorted_by_date P ?f) ! i) c))"
      using i r1i c colc by (simp add: res)
    moreover have "r1 ''State/UnionTerritory'' =
        (rows (sorted_by_date P ?f) ! i) ''State/UnionTerritory''"
      using i r1i by (simp add: res col_preprocessed_other col_coerced_other)
    moreover have cd: "c \<noteq> ''Date''" using assms(2) by auto
    moreover have sd: "''State/UnionTerritory'' \<noteq> ''Date''" by simp
    moreover from rows_sorted_by_date_cells [OF nth_mem [OF i]]
    obtain r0 where "r0 \<in> set (rows ?f)"
      and "\<forall>c. c \<noteq> ''Date'' \<longrightarrow> (rows (sorted_by_date P ?f) ! i) c = r0 c"
      by blast
    ultimately show ?thesis by metis
  qed
  have 3: "c \<notin> set (columns ?f) \<longrightarrow> (\<forall>x\<in>set (col (h' ! r) c). x = Num 0)"
    unfolding colc by auto
  have 4: "\<forall>s. fillna 0 (to_numeric P (Str s)) =
                (case str_to_numeric P s of Some q \<Rightarrow> Num q | None \<Rightarrow> Num 0)"
    by (auto split: option.splits)
  from 1 2 3 4 show ?thesis by simp
qed


text \<open>The theorem at the frame \<open>two_regions\<close> and the column \<^verbatim>\<open>Deaths\<close>.\<close>

theorem preprocess_data_coerces_counts_witness:
  "preprocess_data example_parsers (Some 0) [two_regions] =
     (Inr (Some 2), [],
      [two_regions, dropna ''Date'' (assign_Date example_parsers two_regions),
       preprocessed example_parsers two_regions]) \<and>
   (\<exists>q. col (preprocessed example_parsers two_regions) ''Deaths'' ! 1 = Num q) \<and>
   (\<exists>r0\<in>set (rows two_regions).
      (rows (preprocessed example_parsers two_regions) ! 1) ''Deaths'' =
        fillna 0 (to_numeric example_parsers (r0 ''Deaths'')) \<and>
      (rows (preprocessed example_parsers two_regions) ! 1) ''State/UnionTerritory'' =
        r0 ''State/UnionTerritory'')"
proof -
  have cols: "columns two_regions = [''Date'', ''State/UnionTerritory'', ''Confirmed'', ''Deaths'']"
    by (simp add: two_regions_def)
  have eq: "preprocess_data example_parsers (Some 0) [two_regions] =
     (Inr (Some 2), [],
      [two_regions, dropna ''Date'' (assign_Date example_parsers two_regions),
       preprocessed example_parsers two_regions])"
    by (simp add: preprocess_data_example warnings_eq cols)
  have len: "length (rows (preprocessed example_parsers two_regions)) = 3"
    by (simp add: rows_sorted_by_date assign_Date_def two_regions_def example_parsers_def
          is_datetime64_any_dtype_def setitem_datetime_def setitem_def mk_row_def col_def)
  then have mem: "rows (preprocessed example_parsers two_regions) ! 1
                    \<in> set (rows (preprocessed example_parsers two_regions))"
    and mem': "col (preprocessed example_parsers two_regions) ''Deaths'' ! 1
                    \<in> set (col (preprocessed example_parsers two_regions) ''Deaths'')"
    by (simp_all del: length_rows_preprocessed)
  from preprocess_data_coerces_counts [OF eq, of "''Deaths''"]
  have "\<forall>x\<in>set (col (preprocessed example_parsers two_regions) ''Deaths''). \<exists>q. x = Num q"
    and "\<forall>r1\<in>set (rows (preprocessed example_parsers two_regions)). \<exists>r0\<in>set (rows two_regions).
           r1 ''Deaths'' = fillna 0 (to_numeric example_parsers (r0 ''Deaths'')) \<and>
           r1 ''State/UnionTerritory'' = r0 ''State/UnionTerritory''"
    by (simp_all add: cols)
  with mem mem' eq show ?thesis by blast
qed

text \<open>
  Claim C6 as the specification states it fails: a confirmed count of \<open>-5\<close> and a
  death count of \<open>1/2\<close> come out of \<^verbatim>\<open>preprocess_data\<close> unchanged.
\<close>

theorem preprocess_data_keeps_negative_counts:
  "fst (preprocess_data example_parsers (Some 0) [negative_counts]) = Inr (Some 2) \<and>
   col (snd (snd (preprocess_data example_parsers (Some 0) [negative_counts])) ! 2) ''Confirmed''
     = [Num (- 5)] \<and>
   col (snd (snd (preprocess_data example_parsers (Some 0) [negative_counts])) ! 2) ''Deaths''
     = [Num (1 / 2)]"
proof -
  have cols: "columns negative_counts = [''Date'', ''State/UnionTerritory'', ''Confirmed'', ''Deaths'']"
    by (simp add: negative_counts_def)
  have 1: "col (sorted_by_date example_parsers negative_counts) ''Confirmed'' = [Num (- 5)]"
    by (simp add: col_def rows_sorted_by_date assign_Date_def negative_counts_def
          example_parsers_def is_datetime64_any_dtype_def setitem_datetime_def setitem_def
          mk_row_def)
  have 2: "col (sorted_by_date example_parsers negative_counts) ''Deaths'' = [Num (1 / 2)]"
    by (simp add: col_def rows_sorted_by_date assign_Date_def negative_counts_def
          example_parsers_def is_datetime64_any_dtype_def setitem_datetime_def setitem_def
          mk_row_def)
  show ?thesis
    by (simp add: preprocess_data_example cols col_preprocessed_other col_coerced_Confirmed
          col_coerced_Deaths 1 2)
qed

section \<open>No exception and no mutation of the argument (claim C10)\<close>

text \<open>
  Claim C10. \<^verbatim>\<open>preprocess_data\<close> never raises to its caller: every call returns a value.
  For the argument \<open>None\<close> it prints a line and returns \<open>None\<close>; when a statement of
  the \<^verbatim>\<open>try\<close> block raises, it prints what was printed so far and the error line and
  returns \<open>None\<close>; so a returned \<open>None\<close> always comes with a printed line. Every frame
  that existed before the call, the argument among them, is the same after the call: the
  function writes to its own copy and to the frames it creates.
\<close>

theorem preprocess_data_never_raises:
  assumes "\<forall>a. df_input = Some a \<longrightarrow> a < length h"
  shows "(\<exists>r out h'. preprocess_data P df_input h = (Inr r, out, h') \<and>
            (r = None \<longrightarrow> out \<noteq> []) \<and> (\<forall>b<length h. h' ! b = h ! b)) \<and>
         (df_input = None \<longrightarrow>
            preprocess_data P df_input h =
              (Inr None, [''Input DataFrame is None in preprocess_data''], h)) \<and>
         (\<forall>a e out0 h0. df_input = Some a \<and>
              try_block P (length h) (h @ [h ! a]) = (Inl e, out0, h0) \<longrightarrow>
            preprocess_data P df_input h =
              (Inr None, out0 @ [''Error in preprocess_data: '' @ str_exn e], h0))"
proof (intro conjI)
  show "\<exists>r out h'. preprocess_data P df_input h = (Inr r, out, h') \<and>
            (r = None \<longrightarrow> out \<noteq> []) \<and> (\<forall>b<length h. h' ! b = h ! b)"
  proof (cases df_input)
    case None
    then show ?thesis by (simp add: preprocess_data_None)
  next
    case (Some a)
    show ?thesis
    proof (cases "''Date'' \<in> set (columns (h ! a))")
      case True
      show ?thesis
        unfolding Some preprocess_data_returns [OF True] by (simp add: nth_append)
    next
      case False
      show ?thesis
        unfolding Some preprocess_data_KeyError [OF False] by (simp add: nth_append)
    qed
  qed
  show "df_input = None \<longrightarrow>
            preprocess_data P df_input h =
              (Inr None, [''Input DataFrame is None in preprocess_data''], h)"
    by (simp add: preprocess_data_None)
  show "\<forall>a e out0 h0. df_input = Some a \<and>
              try_block P (length h) (h @ [h ! a]) = (Inl e, out0, h0) \<longrightarrow>
            preprocess_data P df_input h =
              (Inr None, out0 @ [''Error in preprocess_data: '' @ str_exn e], h0)"
    by (auto simp: preprocess_data_def alloc_def)
qed


text \<open>The theorem at a frame without a \<^verbatim>\<open>Date\<close> column, where the \<^verbatim>\<open>try\<close> block raises.\<close>

theorem preprocess_data_never_raises_witness:
  "(0::nat) < length [no_dates] \<and>
   preprocess_data example_parsers (Some 0) [no_dates] =
     (Inr None, [''Error in preprocess_data: '' @ [CHR 0x27] @ ''Date'' @ [CHR 0x27]], [no_dates, no_dates]) \<and>
   (\<exists>r out h'. preprocess_data example_parsers (Some 0) [no_dates] = (Inr r, out, h') \<and>
      h' ! 0 = no_dates)"
proof -
  have cols: "columns no_dates = [''State/UnionTerritory'', ''Confirmed'', ''Deaths'']"
    by (simp add: no_dates_def)
  have eq: "preprocess_data example_parsers (Some 0) [no_dates] =
     (Inr None, [''Error in preprocess_data: '' @ [CHR 0x27] @ ''Date'' @ [CHR 0x27]], [no_dates, no_dates])"
    using preprocess_data_KeyError [of "[no_dates]" 0 example_parsers] by (simp add: cols)
  have "\<forall>a. Some (0::nat) = Some a \<longrightarrow> a < length [no_dates]" by simp
  from preprocess_data_never_raises [OF this, of example_parsers] eq
  show ?thesis by auto
qed


section \<open>Missing columns (claim C4)\<close>





section \<open>Order of the dates (claim C3)\<close>







section \<open>Rolling averages (claim C5)\<close>

text \<open>
  Claim C5. Let the input have the region column, let \<open>grp\<close> be the rows of one region
  in the frame that \<^verbatim>\<open>preprocess_data\<close> returns, in their order there, and \<open>obs\<close> their
  confirmed counts (or death counts). At every position \<open>i\<close> of \<open>grp\<close> the cell
  \<^verbatim>\<open>Confirmed_MA7\<close> (\<^verbatim>\<open>Death_MA7\<close>) is the arithmetic mean of the last
  \<open>min (i + 1) 7\<close> of the observations \<open>obs ! 0, ..., obs ! i\<close>: observations of that
  region only. Hence a region whose observations all equal \<open>v\<close> has the average \<open>v\<close>
  at every position, and the first observation of a region, so also the only row of a
  one-row input, has its own value as average.
\<close>

theorem preprocess_data_MA7:
  assumes res: "preprocess_data P (Some a) h = (Inr (Some r), out, h')"
    and state: "''State/UnionTerritory'' \<in> set (columns (h ! a))"
    and cols: "(src, dst) = (''Confirmed'', ''Confirmed_MA7'') \<or>
               (src, dst) = (''Deaths'', ''Death_MA7'')"
    and k: "region \<noteq> NaN"
    and grp: "grp = filter (\<lambda>r. r ''State/UnionTerritory'' = region) (rows (h' ! r))"
    and obs: "obs = map (\<lambda>r. num_of (r src)) grp"
    and i: "i < length grp"
  shows "(grp ! i) dst = Num (mean (drop (i + 1 - min (i + 1) 7) (take (i + 1) obs))) \<and>
         length (drop (i + 1 - min (i + 1) 7) (take (i + 1) obs)) = min (i + 1) 7 \<and>
         (grp ! i) src = Num (obs ! i) \<and>
         ((\<forall>x\<in>set obs. x = v) \<longrightarrow> (grp ! i) dst = Num v) \<and>
         (i = 0 \<longrightarrow> (grp ! i) dst = (grp ! i) src)"
proof -
  let ?f = "h ! a"
  have date: "''Date'' \<in> set (columns ?f)" and out: "h' ! r = preprocessed P ?f"
    using preprocess_data_Some_result [OF res] by blast+
  have src: "src = ''Confirmed'' \<or> src = ''Deaths''"
    using cols by auto
  have iobs: "i < length obs"
    using i obs by simp
  have ma: "(grp ! i) dst = Num (mean (window7 obs i))"
    using preprocessed_MA7 [OF date state cols k, of i P] i
    unfolding grp obs out by simp
  have 1: "(grp ! i) dst = Num (mean (drop (i + 1 - min (i + 1) 7) (take (i + 1) obs)))"
    using ma by (simp only: window7_last)
  have 2: "length (drop (i + 1 - min (i + 1) 7) (take (i + 1) obs)) = min (i + 1) 7"
    using length_window7 [OF iobs] by (simp only: window7_last)
  have "grp ! i \<in> set (rows (preprocessed P ?f))"
    using i nth_mem [OF i] unfolding grp out by simp
  then have "(grp ! i) src \<in> set (col (preprocessed P ?f) src)"
    by (simp add: col_def)
  from col_preprocessed_counts_Num [OF date src this]
  obtain q where q: "(grp ! i) src = Num q" ..
  then have 3: "(grp ! i) src = Num (obs ! i)"
    using i by (simp add: obs)
  have ne: "window7 obs i \<noteq> []"
    using length_window7 [OF iobs] by auto
  have 4: "(grp ! i) dst = Num v" if "\<forall>x\<in>set obs. x = v"
  proof -
    from that window7_subset [of obs i] have "\<forall>x\<in>set (window7 obs i). x = v" by blast
    from mean_constant [OF ne this] ma show ?thesis by simp
  qed
  have 5: "(grp ! i) dst = (grp ! i) src" if "i = 0"
  proof -
    from iobs have "obs \<noteq> []" by auto
    with ma that 3 show ?thesis by (simp add: window7_first mean_single)
  qed
  from 1 2 3 4 5 show ?thesis by blast
qed


text \<open>
  The theorem at the frame \<open>two_regions\<close> and the region Goa, whose confirmed counts
  are 3 and 5 in date order: the average at its second position is 4.
\<close>

theorem preprocess_data_MA7_witness:
  "preprocess_data example_parsers (Some 0) [two_regions] =
     (Inr (Some 2), [],
      [two_regions, dropna ''Date'' (assign_Date example_parsers two_regions),
       preprocessed example_parsers two_regions]) \<and>
   ''State/UnionTerritory'' \<in> set (columns two_regions) \<and>
   Str ''Goa'' \<noteq> NaN \<and>
   map (\<lambda>r. num_of (r ''Confirmed''))
     (filter (\<lambda>r. r ''State/UnionTerritory'' = Str ''Goa'')
        (rows (preprocessed example_parsers two_regions))) = [3, 5] \<and>
   (filter (\<lambda>r. r ''State/UnionTerritory'' = Str ''Goa'')
      (rows (preprocessed example_parsers two_regions)) ! 1) ''Confirmed_MA7'' = Num 4"
proof -
  let ?g = "preprocessed example_parsers two_regions"
  let ?grp = "filter (\<lambda>r. r ''State/UnionTerritory'' = Str ''Goa'') (rows ?g)"
  have cols: "columns two_regions = [''Date'', ''State/UnionTerritory'', ''Confirmed'', ''Deaths'']"
    by (simp add: two_regions_def)
  have date: "''Date'' \<in> set (columns two_regions)"
    by (simp add: cols)
  have eq: "preprocess_data example_parsers (Some 0) [two_regions] =
     (Inr (Some 2), [], [two_regions, dropna ''Date'' (assign_Date example_parsers two_regions), ?g])"
    by (simp add: preprocess_data_example warnings_eq cols)
  have state: "''State/UnionTerritory'' \<in> set (columns ([two_regions] ! 0))"
    by (simp add: cols)
  have keys: "map (\<lambda>r. r ''State/UnionTerritory'') (rows ?g) = [Str ''Goa'', Str ''Kerala'', Str ''Goa'']"
    using two_regions_states
    by (simp add: col_def [symmetric] col_preprocessed_other col_coerced_other)
  have vals: "map (\<lambda>r. r ''Confirmed'') (rows ?g) = [Num 3, Num 10, Num 5]"
    by (simp add: col_def [symmetric] col_preprocessed_other col_coerced_Confirmed [OF date]
          cols two_regions_confirmed)
  have obs: "map (\<lambda>r. num_of (r ''Confirmed'')) ?grp = [3, 5]"
    by (simp add: map_filter_by_key keys vals)
  then have "length (map (\<lambda>r. num_of (r ''Confirmed'')) ?grp) = 2"
    by simp
  then have i: "1 < length ?grp"
    by simp
  have grp: "?grp = filter (\<lambda>r. r ''State/UnionTerritory'' = Str ''Goa'')
                 (rows ([two_regions, dropna ''Date'' (assign_Date example_parsers two_regions), ?g] ! 2))"
    by simp
  have "(?grp ! 1) ''Confirmed_MA7'' =
          Num (mean (drop (1 + 1 - min (1 + 1) 7)
            (take (1 + 1) (map (\<lambda>r. num_of (r ''Confirmed'')) ?grp))))"
    using preprocess_data_MA7 [OF eq state _ _ grp refl i,
        where src = "''Confirmed''" and dst = "''Confirmed_MA7''"]
    by simp
  then have "(?grp ! 1) ''Confirmed_MA7'' = Num 4"
    unfolding obs by (simp add: mean_def)
  with eq obs show ?thesis by (simp add: cols)
qed


section \<open>Calls on an untrained engine (claim C8)\<close>






section \<open>The model of a region is a new object (claim C9)\<close>

text \<open>
  Claim C9. Whatever \<^verbatim>\<open>get_state_predictions\<close> returns or raises, every scaler, every
  forest and every decomposition model that existed before the call is the same after
  it, the engine's three objects among them. When the call gets as far as the fit, the
  store holds exactly one more decomposition model, at a new address: it was
  constructed unfitted, and it holds what the library fitted on the aggregated series
  of the region's rows, or is still unfitted when that fit raised.
\<close>

theorem get_state_predictions_fresh_model:
  assumes "get_state_predictions L g self df state days s = (res, s')"
  shows "scalers s' = scalers s \<and> forests s' = forests s \<and>
         (\<forall>a<length (prophets s). prophets s' ! a = prophets s ! a) \<and>
         (\<forall>state_df prophet_df.
            filter_state df state = Inr state_df \<and>
            prepare_prophet_data (Some state_df) (Some state) = Inr prophet_df \<longrightarrow>
            length (prophets s') = Suc (length (prophets s)) \<and>
            prophets s' ! length (prophets s) =
              (case Prophet_fit L default_params g prophet_df of Inl msg \<Rightarrow> None | Inr m \<Rightarrow> Some m))"
proof (cases "filter_state df state")
  case (Inl e)
  with assms show ?thesis
    by (auto simp: get_state_predictions_no_frame)
next
  case (Inr state_df)
  note fs = this
  show ?thesis
  proof (cases "prepare_prophet_data (Some state_df) (Some state)")
    case (Inl e)
    with assms fs show ?thesis
      by (auto simp: get_state_predictions_no_series)
  next
    case (Inr prophet_df)
    from assms show ?thesis
      unfolding get_state_predictions_run [OF fs Inr]
      by (auto simp: fs Inr nth_append split: sum.splits)
  qed
qed


text \<open>
  The theorem at a trained engine and the region Goa of the loaded example frame: the
  engine's aggregate model is still the one it was, and the store holds a second model.
\<close>

theorem get_state_predictions_fresh_model_witness:
  "\<exists>res s'. get_state_predictions example_library 0 new_engine (Some two_regions_loaded) ''Goa'' 30
              trained_objects = (res, s') \<and>
     scalers s' = scalers trained_objects \<and> forests s' = forests trained_objects \<and>
     prophets s' ! prophet_model new_engine = Some two_regions_loaded \<and>
     length (prophets s') = 2"
proof -
  obtain res s' where run: "get_state_predictions example_library 0 new_engine (Some two_regions_loaded)
      ''Goa'' 30 trained_objects = (res, s')"
    by (rule prod.exhaust)
  from filter_state_Goa obtain f where ex: "filter_state (Some two_regions_loaded) ''Goa'' = Inr f \<and>
       columns f = [''Date'', ''State/UnionTerritory'', ''Confirmed'', ''Deaths''] \<and>
       map (\<lambda>r. (r ''Date'', r ''State/UnionTerritory'', r ''Confirmed'', r ''Deaths'')) (rows f) =
         [(Dt 86400000000000, Str ''Goa'', Num 5, Num 1), (Dt 0, Str ''Goa'', Num 3, Num 7)]" ..
  note f = ex [THEN conjunct1] and cf = ex [THEN conjunct2, THEN conjunct1]
    and rf = ex [THEN conjunct2, THEN conjunct2]
  from prepare_Goa [OF cf rf] obtain g where exg: "prepare_prophet_data (Some f) (Some ''Goa'') = Inr (Some g) \<and>
      length (rows g) = 2 \<and>
      map (\<lambda>r. (r ''ds'', r ''y'')) (rows g) = [(Dt 0, Num 3), (Dt 86400000000000, Num 5)]" ..
  note g = exg [THEN conjunct1]
  have len: "length (prophets trained_objects) = 1" and pm: "prophet_model new_engine = 0"
    and p0: "prophets trained_objects ! 0 = Some two_regions_loaded"
    by (simp_all add: trained_objects_def new_engine_def)
  from get_state_predictions_fresh_model [OF run] f g len
  have "scalers s' = scalers trained_objects" "forests s' = forests trained_objects"
    "prophets s' ! 0 = prophets trained_objects ! 0" "length (prophets s') = Suc 1"
    by auto
  with run pm p0 show ?thesis by simp
qed


section \<open>No check of the length of the history (claim C2)\<close>

text \<open>
  Claim C2, as the code has it. \<^verbatim>\<open>get_state_predictions\<close> has no check of its own on
  the history of a region. Once the region's rows are selected and aggregated, the
  outcome is the library's: when the fit raises, the library's error reaches the caller
  as a \<^verbatim>\<open>ValueError\<close> with the library's message, and a new unfitted model stays
  behind; when the fit returns, the forecast of the fitted model is returned, however
  short the history. For a region with zero observations the series handed to the fit
  has no rows.
\<close>

theorem get_state_predictions_no_history_check:
  assumes "filter_state df state = Inr state_df"
    and "prepare_prophet_data (Some state_df) (Some state) = Inr prophet_df"
  shows "(\<forall>msg. Prophet_fit L default_params g prophet_df = Inl msg \<longrightarrow>
            get_state_predictions L g self df state days s =
              (Inl (ValueError msg), s\<lparr>prophets := prophets s @ [None]\<rparr>)) \<and>
         (\<forall>m. Prophet_fit L default_params g prophet_df = Inr m \<longrightarrow>
            get_state_predictions L g self df state days s =
              ((case Prophet_predict L m g (Prophet_make_future_dataframe L m days) of
                  Inl msg \<Rightarrow> Inl (ValueError msg)
                | Inr fc \<Rightarrow> select_columns fc forecast_columns),
               s\<lparr>prophets := prophets s @ [Some m]\<rparr>)) \<and>
         (\<forall>f. df = Some f \<and> (\<forall>r\<in>set (rows f). r ''State/UnionTerritory'' \<noteq> Str state) \<longrightarrow>
            (\<exists>series. prophet_df = Some series \<and> rows series = []))"
proof -
  have 3: "\<exists>series. prophet_df = Some series \<and> rows series = []"
    if "df = Some f" and "\<forall>r\<in>set (rows f). r ''State/UnionTerritory'' \<noteq> Str state" for f
    using filter_state_no_rows(1) [of f state state_df] that assms
      prepare_prophet_data_no_rows [of state_df "Some state" prophet_df]
      prepare_prophet_data_after_filter [OF assms]
    by auto
  show ?thesis
    unfolding get_state_predictions_run [OF assms] using 3 by auto
qed



text \<open>
  The theorem at the region Delhi, which has no observation in the loaded example
  frame: the library's refusal of the empty series reaches the caller.
\<close>

theorem get_state_predictions_no_history_check_witness:
  "filter_state (Some two_regions_loaded) ''Delhi'' = Inr (two_regions_loaded\<lparr>rows := []\<rparr>) \<and>
   prepare_prophet_data (Some (two_regions_loaded\<lparr>rows := []\<rparr>)) (Some ''Delhi'') =
     Inr (Some \<lparr>columns = [''ds'', ''y'', ''Deaths''], datetime64 = [''ds''], rows = []\<rparr>) \<and>
   Prophet_fit example_library default_params 0
     (Some \<lparr>columns = [''ds'', ''y'', ''Deaths''], datetime64 = [''ds''], rows = []\<rparr>) =
     Inl ''Dataframe has less than 2 non-NaN rows.'' \<and>
   get_state_predictions example_library 0 new_engine (Some two_regions_loaded) ''Delhi'' 7 new_objects =
     (Inl (ValueError ''Dataframe has less than 2 non-NaN rows.''),
      new_objects\<lparr>prophets := prophets new_objects @ [None]\<rparr>)"
proof -
  have fit: "Prophet_fit example_library default_params 0
     (Some \<lparr>columns = [''ds'', ''y'', ''Deaths''], datetime64 = [''ds''], rows = []\<rparr>) =
     Inl ''Dataframe has less than 2 non-NaN rows.''"
    by (simp add: example_library_def)
  from get_state_predictions_no_history_check [OF filter_state_Delhi prepare_Delhi,
      of example_library 0 new_engine 7 new_objects] fit
  have "get_state_predictions example_library 0 new_engine (Some two_regions_loaded) ''Delhi'' 7 new_objects =
     (Inl (ValueError ''Dataframe has less than 2 non-NaN rows.''),
      new_objects\<lparr>prophets := prophets new_objects @ [None]\<rparr>)"
    by blast
  with filter_state_Delhi prepare_Delhi fit show ?thesis by blast
qed


text \<open>
  Claim C2 as the specification states it fails. For the region Delhi, without any
  observation, the call ends in the library's \<^verbatim>\<open>ValueError\<close>, not in a structured error
  of the engine; for the region Goa, with a history of two days, the call returns a
  forecast and flags nothing.
\<close>

theorem get_state_predictions_raises_ValueError:
  "fst (get_state_predictions example_library 0 new_engine (Some two_regions_loaded) ''Delhi'' 30
          trained_objects) =
     Inl (ValueError ''Dataframe has less than 2 non-NaN rows.'') \<and>
   \<not> isl (fst (get_state_predictions example_library 0 new_engine (Some two_regions_loaded) ''Goa'' 30
          trained_objects))"
proof -
  have 1: "fst (get_state_predictions example_library 0 new_engine (Some two_regions_loaded) ''Delhi'' 30
          trained_objects) = Inl (ValueError ''Dataframe has less than 2 non-NaN rows.'')"
    unfolding get_state_predictions_run [OF filter_state_Delhi prepare_Delhi]
    by (simp add: example_library_def)
  from filter_state_Goa obtain f where ex: "filter_state (Some two_regions_loaded) ''Goa'' = Inr f \<and>
       columns f = [''Date'', ''State/UnionTerritory'', ''Confirmed'', ''Deaths''] \<and>
       map (\<lambda>r. (r ''Date'', r ''State/UnionTerritory'', r ''Confirmed'', r ''Deaths'')) (rows f) =
         [(Dt 86400000000000, Str ''Goa'', Num 5, Num 1), (Dt 0, Str ''Goa'', Num 3, Num 7)]" ..
  note f = ex [THEN conjunct1] and cf = ex [THEN conjunct2, THEN conjunct1]
    and rf = ex [THEN conjunct2, THEN conjunct2]
  from prepare_Goa [OF cf rf] obtain g where exg: "prepare_prophet_data (Some f) (Some ''Goa'') = Inr (Some g) \<and>
      length (rows g) = 2 \<and>
      map (\<lambda>r. (r ''ds'', r ''y'')) (rows g) = [(Dt 0, Num 3), (Dt 86400000000000, Num 5)]" ..
  note g = exg [THEN conjunct1] and lg = exg [THEN conjunct2, THEN conjunct1]
  have 2: "\<not> isl (fst (get_state_predictions example_library 0 new_engine (Some two_regions_loaded) ''Goa'' 30
          trained_objects))"
    unfolding get_state_predictions_run [OF f g]
    by (simp add: example_library_def lg select_columns_def forecast_columns_def)
  from 1 2 show ?thesis ..
qed



section \<open>Two trainings on the same input (claim C7)\<close>

text \<open>
  Claim C7. \<^verbatim>\<open>train_models\<close> passes \<^verbatim>\<open>random_state=42\<close> to the split, and the forest
  was constructed with \<^verbatim>\<open>random_state=42\<close>. Let the library keep its contract for an
  integer \<^verbatim>\<open>random_state\<close>: the split and the fit of the forest then do not depend on
  the state of the process-wide random number generator. Then two engines, each newly
  constructed and trained on the same input, in whatever stores and under whatever
  states of that generator, give the same forest predictions and the same scaling for
  every query, whether or not the later fit of the decomposition model went the same
  way in both. Numbers are exact here, so the same means equal.
\<close>

theorem train_models_reproducible:
  assumes "\<forall>t sd g g' X y. train_test_split L t (Some sd) g X y = train_test_split L t (Some sd) g' X y"
    and "\<forall>n sd g g' X y. RandomForestRegressor_fit L n (Some sd) g X y =
                            RandomForestRegressor_fit L n (Some sd) g' X y"
    and "init s1 = (Inr self1, s1')" and "train_models L P g1 self1 df s1' = (r1, t1)"
    and "init s2 = (Inr self2, s2')" and "train_models L P g2 self2 df s2' = (r2, t2)"
  shows "fst (forest_predict L (rf_model self1) X t1) = fst (forest_predict L (rf_model self2) X t2) \<and>
         fst (scaler_transform L (scaler self1) X t1) = fst (scaler_transform L (scaler self2) X t2)"
proof -
  note a1 = init_addresses [OF assms(3)] and a2 = init_addresses [OF assms(5)]
  from train_models_fitted [OF a1 assms(4)] train_models_fitted [OF a2 assms(6)]
    fitted_by_training_seeded [OF assms(1,2), of P g1 df g2]
  have "forests t1 ! rf_model self1 = forests t2 ! rf_model self2"
    and "scalers t1 ! scaler self1 = scalers t2 ! scaler self2"
    by simp_all
  then show ?thesis
    by (simp add: forest_predict_def scaler_transform_def raise_def from_library_def ret_def
          split: option.splits sum.splits)
qed



text \<open>
  The theorem at the stand-in library, which satisfies the contract, at the loaded
  example frame and at two different states of the generator.
\<close>

theorem train_models_reproducible_witness:
  "(\<forall>t sd g g' X y. train_test_split example_library t (Some sd) g X y =
                       train_test_split example_library t (Some sd) g' X y) \<and>
   (\<forall>n sd g g' X y. RandomForestRegressor_fit example_library n (Some sd) g X y =
                       RandomForestRegressor_fit example_library n (Some sd) g' X y) \<and>
   init \<lparr>scalers = [], forests = [], prophets = []\<rparr> = (Inr new_engine, new_objects) \<and>
   (\<exists>r1 t1 r2 t2.
      train_models example_library example_parsers 0 new_engine (Some two_regions_loaded)
        new_objects = (r1, t1) \<and>
      train_models example_library example_parsers 1 new_engine (Some two_regions_loaded)
        new_objects = (r2, t2) \<and>
      fst (forest_predict example_library (rf_model new_engine) [[Num 1]] t1) = Inr [0] \<and>
      fst (forest_predict example_library (rf_model new_engine) [[Num 1]] t2) = Inr [0])"
proof -
  have split: "\<forall>t sd g g' X y. train_test_split example_library t (Some sd) g X y =
                       train_test_split example_library t (Some sd) g' X y"
    by (simp add: example_library_def)
  have fit: "\<forall>n sd g g' X y. RandomForestRegressor_fit example_library n (Some sd) g X y =
                       RandomForestRegressor_fit example_library n (Some sd) g' X y"
    by (simp add: example_library_def)
  have init: "init \<lparr>scalers = [], forests = [], prophets = []\<rparr> = (Inr new_engine, new_objects)"
    by (simp add: init_result new_engine_def new_objects_def)
  obtain r1 t1 where run1: "train_models example_library example_parsers 0 new_engine
      (Some two_regions_loaded) new_objects = (r1, t1)"
    by (rule prod.exhaust)
  obtain r2 t2 where run2: "train_models example_library example_parsers 1 new_engine
      (Some two_regions_loaded) new_objects = (r2, t2)"
    by (rule prod.exhaust)
  have date: "''Date'' \<in> set (columns two_regions_loaded)"
    by (simp add: two_regions_loaded_def)
  have "fitted_by_training example_library example_parsers 0 (Some two_regions_loaded) =
          (Some (), Some ())"
    by (simp add: fitted_by_training_def preprocess_frame_Some [OF date]
          getitem_list_features [OF date] getitem_def columns_preprocessed [OF date]
          example_library_def)
  with train_models_fitted [OF init_addresses [OF init] run1]
  have "forests t1 ! rf_model new_engine = Some ()"
    by simp
  then have p1: "fst (forest_predict example_library (rf_model new_engine) [[Num 1]] t1) = Inr [0]"
    by (simp add: forest_predict_def from_library_def ret_def example_library_def)
  from train_models_reproducible [OF split fit init run1 init run2, of "[[Num 1]]"] p1
  have p2: "fst (forest_predict example_library (rf_model new_engine) [[Num 1]] t2) = Inr [0]"
    by simp
  from split fit init run1 run2 p1 p2 show ?thesis by blast
qed


end
